theory Spec2Isabelle
  imports Main
begin

section \<open>Tokens (include/lexer.h)\<close>

text \<open>
  The enumeration \<^verbatim>\<open>TokenType\<close>, in the order of the header.
\<close>

datatype TokenType =
    TOKEN_EOF
  | TOKEN_INT | TOKEN_FLOAT | TOKEN_CHAR | TOKEN_VOID
  | TOKEN_IF | TOKEN_ELSE | TOKEN_FOR | TOKEN_WHILE | TOKEN_DO
  | TOKEN_BREAK | TOKEN_CONTINUE | TOKEN_RETURN
  | TOKEN_IDENTIFIER | TOKEN_NUMBER | TOKEN_STRING
  | TOKEN_PLUS | TOKEN_MINUS | TOKEN_MULTIPLY | TOKEN_DIVIDE | TOKEN_MODULO
  | TOKEN_ASSIGN | TOKEN_EQUALS | TOKEN_NOT_EQUALS
  | TOKEN_GREATER | TOKEN_LESS | TOKEN_GREATER_EQ | TOKEN_LESS_EQ
  | TOKEN_AND | TOKEN_OR | TOKEN_NOT
  | TOKEN_SEMICOLON | TOKEN_COMMA
  | TOKEN_LPAREN | TOKEN_RPAREN | TOKEN_LBRACE | TOKEN_RBRACE
  | TOKEN_ERROR

text \<open>
  A \<^verbatim>\<open>const char *\<close> into a NUL-terminated buffer is modelled by the bytes from the
  pointer up to (and without) the terminating NUL: the C string that \<^verbatim>\<open>strlen\<close>,
  \<^verbatim>\<open>strcmp\<close>, \<^verbatim>\<open>strcpy\<close> and \<^verbatim>\<open>strchr\<close> see at that pointer. The field
  \<open>start\<close> of a token is such a pointer: it is the whole rest of the source buffer from the
  first byte of the token on, and \<open>tlength\<close> says how many of these bytes belong to the
  token. The slice of the token (what \<^verbatim>\<open>%.*s\<close> prints) is \<open>slice\<close>.

  The union \<^verbatim>\<open>value\<close> of the C struct is written by the scanner and read nowhere in
  the sources; it is left out.
\<close>

record Token =
  type :: TokenType
  start :: string
  tlength :: int
  line :: int
  column :: int

definition slice :: "Token \<Rightarrow> string" where
  "slice t = take (nat (tlength t)) (start t)"

section \<open>Scanner (src/lexer/lexer.c)\<close>

text \<open>
  \<^verbatim>\<open>lexer->start\<close> and \<^verbatim>\<open>lexer->current\<close> point into the same buffer; both are modelled
  as the rest of the buffer from the pointer on, so that the pointer difference
  \<^verbatim>\<open>current - start\<close> is the difference of the two lengths.
\<close>

record Lexer =
  lstart :: string
  lcurrent :: string
  lline :: int
  lcolumn :: int

text \<open>The keyword table \<^verbatim>\<open>hindiKeywords\<close>, byte for byte as in the source file (UTF-8).\<close>

definition kw_int :: string where
  "kw_int = [CHR 0xE0, CHR 0xA4, CHR 0xAA, CHR 0xE0, CHR 0xA5, CHR 0x82,
             CHR 0xE0, CHR 0xA4, CHR 0xB0, CHR 0xE0, CHR 0xA5, CHR 0x8D,
             CHR 0xE0, CHR 0xA4, CHR 0xA3, CHR 0xE0, CHR 0xA4, CHR 0xBE,
             CHR 0xE0, CHR 0xA4, CHR 0x82, CHR 0xE0, CHR 0xA4, CHR 0x95]"

definition kw_float :: string where
  "kw_float = [CHR 0xE0, CHR 0xA4, CHR 0xA6, CHR 0xE0, CHR 0xA4, CHR 0xB6,
               CHR 0xE0, CHR 0xA4, CHR 0xAE, CHR 0xE0, CHR 0xA4, CHR 0xB2,
               CHR 0xE0, CHR 0xA4, CHR 0xB5]"

definition kw_char :: string where
  "kw_char = [CHR 0xE0, CHR 0xA4, CHR 0xB5, CHR 0xE0, CHR 0xA4, CHR 0xB0,
              CHR 0xE0, CHR 0xA5, CHR 0x8D, CHR 0xE0, CHR 0xA4, CHR 0xA3]"

definition kw_void :: string where
  "kw_void = [CHR 0xE0, CHR 0xA4, CHR 0xB6, CHR 0xE0, CHR 0xA5, CHR 0x82,
              CHR 0xE0, CHR 0xA4, CHR 0xA8, CHR 0xE0, CHR 0xA5, CHR 0x8D,
              CHR 0xE0, CHR 0xA4, CHR 0xAF]"

definition kw_if :: string where
  "kw_if = [CHR 0xE0, CHR 0xA4, CHR 0x85, CHR 0xE0, CHR 0xA4, CHR 0x97,
            CHR 0xE0, CHR 0xA4, CHR 0xB0]"

definition kw_else :: string where
  "kw_else = [CHR 0xE0, CHR 0xA4, CHR 0xB5, CHR 0xE0, CHR 0xA4, CHR 0xB0,
              CHR 0xE0, CHR 0xA4, CHR 0xA8, CHR 0xE0, CHR 0xA4, CHR 0xBE]"

definition kw_for :: string where
  "kw_for = [CHR 0xE0, CHR 0xA4, CHR 0xA6, CHR 0xE0, CHR 0xA5, CHR 0x8C,
             CHR 0xE0, CHR 0xA4, CHR 0xB0]"

definition kw_while :: string where
  "kw_while = [CHR 0xE0, CHR 0xA4, CHR 0x9C, CHR 0xE0, CHR 0xA4, CHR 0xAC,
               CHR 0xE0, CHR 0xA4, CHR 0xA4, CHR 0xE0, CHR 0xA4, CHR 0x95]"

definition kw_do :: string where
  "kw_do = [CHR 0xE0, CHR 0xA4, CHR 0x95, CHR 0xE0, CHR 0xA4, CHR 0xB0,
            CHR 0xE0, CHR 0xA5, CHR 0x8B]"

definition kw_break :: string where
  "kw_break = [CHR 0xE0, CHR 0xA4, CHR 0xB0, CHR 0xE0, CHR 0xA5, CHR 0x81,
               CHR 0xE0, CHR 0xA4, CHR 0x95, CHR 0xE0, CHR 0xA5, CHR 0x8B]"

definition kw_continue :: string where
  "kw_continue = [CHR 0xE0, CHR 0xA4, CHR 0x9C, CHR 0xE0, CHR 0xA4, CHR 0xBE,
                  CHR 0xE0, CHR 0xA4, CHR 0xB0, CHR 0xE0, CHR 0xA5, CHR 0x80]"

definition kw_return :: string where
  "kw_return = [CHR 0xE0, CHR 0xA4, CHR 0xB5, CHR 0xE0, CHR 0xA4, CHR 0xBE,
                CHR 0xE0, CHR 0xA4, CHR 0xAA, CHR 0xE0, CHR 0xA4, CHR 0xB8]"

definition hindiKeywords :: "(string \<times> TokenType) list" where
  "hindiKeywords =
     [(kw_int, TOKEN_INT), (kw_float, TOKEN_FLOAT), (kw_char, TOKEN_CHAR),
      (kw_void, TOKEN_VOID), (kw_if, TOKEN_IF), (kw_else, TOKEN_ELSE),
      (kw_for, TOKEN_FOR), (kw_while, TOKEN_WHILE), (kw_do, TOKEN_DO),
      (kw_break, TOKEN_BREAK), (kw_continue, TOKEN_CONTINUE),
      (kw_return, TOKEN_RETURN)]"

text \<open>
  \<^verbatim>\<open>initLexer\<close>. The buffer is a C string: it ends at its first NUL byte.
\<close>

definition initLexer :: "string \<Rightarrow> Lexer" where
  "initLexer source =
     (let buf = takeWhile (\<lambda>c. c \<noteq> CHR 0x00) source
      in \<lparr>lstart = buf, lcurrent = buf, lline = 1, lcolumn = 1\<rparr>)"

definition peek :: "Lexer \<Rightarrow> char" where
  "peek l = (case lcurrent l of [] \<Rightarrow> CHR 0x00 | c # _ \<Rightarrow> c)"

definition isAtEnd :: "Lexer \<Rightarrow> bool" where
  "isAtEnd l = (peek l = CHR 0x00)"

text \<open>
  \<^verbatim>\<open>advance\<close> of the scanner (the parser has a function of the same name). Every call in
  the scanner is made with \<^verbatim>\<open>*lexer->current\<close> different from NUL.
\<close>

definition advance_lexer :: "Lexer \<Rightarrow> char \<times> Lexer" where
  "advance_lexer l =
     (peek l, l\<lparr>lcolumn := lcolumn l + 1, lcurrent := drop 1 (lcurrent l)\<rparr>)"

definition peekNext :: "Lexer \<Rightarrow> char" where
  "peekNext l =
     (if isAtEnd l then CHR 0x00
      else (case drop 1 (lcurrent l) of [] \<Rightarrow> CHR 0x00 | c # _ \<Rightarrow> c))"

definition match_lexer :: "Lexer \<Rightarrow> char \<Rightarrow> bool \<times> Lexer" where
  "match_lexer l expected =
     (if isAtEnd l then (False, l)
      else if peek l \<noteq> expected then (False, l)
      else (True, l\<lparr>lcurrent := drop 1 (lcurrent l), lcolumn := lcolumn l + 1\<rparr>))"

definition makeToken :: "Lexer \<Rightarrow> TokenType \<Rightarrow> Token" where
  "makeToken l ty =
     (let n = int (length (lstart l)) - int (length (lcurrent l))
      in \<lparr>type = ty, start = lstart l, tlength = n,
          line = lline l, column = lcolumn l - n\<rparr>)"

definition errorToken :: "Lexer \<Rightarrow> string \<Rightarrow> Token" where
  "errorToken l message =
     \<lparr>type = TOKEN_ERROR, start = message, tlength = int (length message),
      line = lline l, column = lcolumn l\<rparr>"

lemma advance_lexer_shorter:
  "\<not> isAtEnd l \<Longrightarrow> length (lcurrent (snd (advance_lexer l))) < length (lcurrent l)"
  by (cases "lcurrent l") (simp_all add: advance_lexer_def isAtEnd_def peek_def)

lemma advance_lexer_current [simp]:
  "lcurrent (snd (advance_lexer l)) = drop 1 (lcurrent l)"
  by (simp add: advance_lexer_def)

text \<open>The inner loop of \<^verbatim>\<open>skipWhitespace\<close> that runs over a line comment.\<close>

function skipComment :: "Lexer \<Rightarrow> Lexer" where
  "skipComment l =
     (if peek l \<noteq> CHR 0x0A \<and> \<not> isAtEnd l then skipComment (snd (advance_lexer l))
      else l)"
  by pat_completeness auto
termination
  by (relation "measure (\<lambda>l. length (lcurrent l))")
     (auto simp: isAtEnd_def peek_def split: list.splits)

declare skipComment.simps [simp del]

lemma skipComment_le: "length (lcurrent (skipComment l)) \<le> length (lcurrent l)"
proof (induction l rule: skipComment.induct)
  case (1 l)
  show ?case
  proof (cases "peek l \<noteq> CHR 0x0A \<and> \<not> isAtEnd l")
    case True
    then have "skipComment l = skipComment (snd (advance_lexer l))"
      by (subst skipComment.simps) simp
    with 1 True show ?thesis by simp
  next
    case False
    then have "skipComment l = l"
      by (subst skipComment.simps) auto
    then show ?thesis by simp
  qed
qed

lemma skipComment_lt:
  assumes "peek l = CHR ''/''"
  shows "length (lcurrent (skipComment l)) < length (lcurrent l)"
proof -
  from assms have ne: "\<not> isAtEnd l" and nl: "peek l \<noteq> CHR 0x0A"
    by (simp_all add: isAtEnd_def)
  then have "skipComment l = skipComment (snd (advance_lexer l))"
    by (subst skipComment.simps) simp
  moreover have "length (lcurrent (skipComment (snd (advance_lexer l))))
                 \<le> length (lcurrent (snd (advance_lexer l)))"
    by (rule skipComment_le)
  moreover have "length (lcurrent (snd (advance_lexer l))) < length (lcurrent l)"
    using ne by (rule advance_lexer_shorter)
  ultimately show ?thesis by simp
qed

function skipWhitespace :: "Lexer \<Rightarrow> Lexer" where
  "skipWhitespace l =
     (let c = peek l in
      if c = CHR '' '' \<or> c = CHR 0x0D \<or> c = CHR 0x09
      then skipWhitespace (snd (advance_lexer l))
      else if c = CHR 0x0A
      then skipWhitespace (snd (advance_lexer (l\<lparr>lline := lline l + 1, lcolumn := 1\<rparr>)))
      else if c = CHR ''/''
      then (if peekNext l = CHR ''/'' then skipWhitespace (skipComment l) else l)
      else l)"
  by pat_completeness auto
termination
proof (relation "measure (\<lambda>l. length (lcurrent l))", goal_cases)
  case 1
  show ?case by simp
next
  case (2 l c)
  then show ?case by (auto simp: peek_def split: list.splits)
next
  case (3 l c)
  then show ?case by (auto simp: peek_def split: list.splits)
next
  case (4 l c)
  then show ?case using skipComment_lt [of l] by simp
qed

declare skipWhitespace.simps [simp del]

definition isDigit :: "char \<Rightarrow> bool" where
  "isDigit c = ((48::nat) \<le> of_char c \<and> of_char c \<le> (57::nat))"

text \<open>
  \<^verbatim>\<open>isIdentifierStart\<close>: the letters are compared as bytes; the last disjunct is the cast
  to \<^verbatim>\<open>unsigned char\<close> compared with \<^verbatim>\<open>0xE0\<close>.
\<close>

definition isIdentifierStart :: "char \<Rightarrow> bool" where
  "isIdentifierStart c =
     (((97::nat) \<le> of_char c \<and> of_char c \<le> (122::nat)) \<or>
      ((65::nat) \<le> of_char c \<and> of_char c \<le> (90::nat)) \<or>
      c = CHR ''_'' \<or>
      (0xE0::nat) \<le> of_char c)"

definition isIdentifierPart :: "char \<Rightarrow> bool" where
  "isIdentifierPart c = (isIdentifierStart c \<or> isDigit c)"

lemma isDigit_not_NUL [simp]: "\<not> isDigit (CHR 0x00)"
  by (simp add: isDigit_def)

lemma isIdentifierPart_not_NUL [simp]: "\<not> isIdentifierPart (CHR 0x00)"
  by (simp add: isIdentifierPart_def isIdentifierStart_def isDigit_def)

text \<open>The loop \<^verbatim>\<open>while (isIdentifierPart(peek(lexer))) advance(lexer);\<close>\<close>

function identifierRun :: "Lexer \<Rightarrow> Lexer" where
  "identifierRun l =
     (if isIdentifierPart (peek l) then identifierRun (snd (advance_lexer l)) else l)"
  by pat_completeness auto
termination
proof (relation "measure (\<lambda>l. length (lcurrent l))", goal_cases)
  case 1
  show ?case by simp
next
  case (2 l)
  then have "peek l \<noteq> CHR 0x00" by auto
  then show ?case by (auto simp: peek_def split: list.splits)
qed

declare identifierRun.simps [simp del]

text \<open>The loop \<^verbatim>\<open>while (isDigit(peek(lexer))) advance(lexer);\<close>\<close>

function digitRun :: "Lexer \<Rightarrow> Lexer" where
  "digitRun l = (if isDigit (peek l) then digitRun (snd (advance_lexer l)) else l)"
  by pat_completeness auto
termination
proof (relation "measure (\<lambda>l. length (lcurrent l))", goal_cases)
  case 1
  show ?case by simp
next
  case (2 l)
  then have "peek l \<noteq> CHR 0x00" by auto
  then show ?case by (auto simp: peek_def split: list.splits)
qed

declare digitRun.simps [simp del]

text \<open>
  The scanners \<^verbatim>\<open>identifier\<close>, \<^verbatim>\<open>number\<close> and \<^verbatim>\<open>string\<close> carry the suffix
  \<open>_lexer\<close>. The keyword search of \<^verbatim>\<open>identifier\<close>: the first entry whose length is
  \<^verbatim>\<open>current - start\<close> and whose bytes are those at \<^verbatim>\<open>start\<close>.
\<close>

fun keywordLookup :: "Lexer \<Rightarrow> (string \<times> TokenType) list \<Rightarrow> TokenType option" where
  "keywordLookup l [] = None"
| "keywordLookup l ((keyword, token) # rest) =
     (if int (length (lstart l)) - int (length (lcurrent l)) = int (length keyword) \<and>
         take (length keyword) (lstart l) = keyword
      then Some token
      else keywordLookup l rest)"

definition identifier_lexer :: "Lexer \<Rightarrow> Token \<times> Lexer" where
  "identifier_lexer l0 =
     (let l = identifierRun l0
      in case keywordLookup l hindiKeywords of
           Some token \<Rightarrow> (makeToken l token, l)
         | None \<Rightarrow> (makeToken l TOKEN_IDENTIFIER, l))"

definition number_lexer :: "Lexer \<Rightarrow> Token \<times> Lexer" where
  "number_lexer l0 =
     (let l = digitRun l0
      in if peek l = CHR ''.'' \<and> isDigit (peekNext l)
         then (let l' = digitRun (snd (advance_lexer l))
               in (makeToken l' TOKEN_NUMBER, l'))
         else (makeToken l TOKEN_NUMBER, l))"

text \<open>The loop of \<^verbatim>\<open>string\<close> up to the closing quote or the end of the buffer.\<close>

function stringRun :: "Lexer \<Rightarrow> Lexer" where
  "stringRun l =
     (if peek l \<noteq> CHR 0x22 \<and> \<not> isAtEnd l
      then stringRun (snd (advance_lexer
             (if peek l = CHR 0x0A then l\<lparr>lline := lline l + 1, lcolumn := 1\<rparr> else l)))
      else l)"
  by pat_completeness auto
termination
  by (relation "measure (\<lambda>l. length (lcurrent l))")
     (auto simp: isAtEnd_def peek_def split: list.splits)

declare stringRun.simps [simp del]

definition string_lexer :: "Lexer \<Rightarrow> Token \<times> Lexer" where
  "string_lexer l0 =
     (let l = stringRun l0
      in if isAtEnd l then (errorToken l ''Unterminated string.'', l)
         else (let l' = snd (advance_lexer l) in (makeToken l' TOKEN_STRING, l')))"

definition scanToken :: "Lexer \<Rightarrow> Token \<times> Lexer" where
  "scanToken l0 =
     (let l1 = skipWhitespace l0;
          l2 = l1\<lparr>lstart := lcurrent l1\<rparr>
      in if isAtEnd l2 then (makeToken l2 TOKEN_EOF, l2)
         else
           (let (c, l) = advance_lexer l2 in
            if isIdentifierStart c then identifier_lexer l
            else if isDigit c then number_lexer l
            else if c = CHR ''('' then (makeToken l TOKEN_LPAREN, l)
            else if c = CHR '')'' then (makeToken l TOKEN_RPAREN, l)
            else if c = CHR ''{'' then (makeToken l TOKEN_LBRACE, l)
            else if c = CHR ''}'' then (makeToken l TOKEN_RBRACE, l)
            else if c = CHR '';'' then (makeToken l TOKEN_SEMICOLON, l)
            else if c = CHR '','' then (makeToken l TOKEN_COMMA, l)
            else if c = CHR ''+'' then (makeToken l TOKEN_PLUS, l)
            else if c = CHR ''-'' then (makeToken l TOKEN_MINUS, l)
            else if c = CHR ''*'' then (makeToken l TOKEN_MULTIPLY, l)
            else if c = CHR ''/'' then (makeToken l TOKEN_DIVIDE, l)
            else if c = CHR ''%'' then (makeToken l TOKEN_MODULO, l)
            else if c = CHR ''=''
            then (let (m, l') = match_lexer l (CHR ''='')
                  in (makeToken l' (if m then TOKEN_EQUALS else TOKEN_ASSIGN), l'))
            else if c = CHR ''!''
            then (let (m, l') = match_lexer l (CHR ''='')
                  in (makeToken l' (if m then TOKEN_NOT_EQUALS else TOKEN_NOT), l'))
            else if c = CHR ''<''
            then (let (m, l') = match_lexer l (CHR ''='')
                  in (makeToken l' (if m then TOKEN_LESS_EQ else TOKEN_LESS), l'))
            else if c = CHR ''>''
            then (let (m, l') = match_lexer l (CHR ''='')
                  in (makeToken l' (if m then TOKEN_GREATER_EQ else TOKEN_GREATER), l'))
            else if c = CHR ''&''
            then (let (m, l') = match_lexer l (CHR ''&'')
                  in if m then (makeToken l' TOKEN_AND, l')
                     else (errorToken l' ''Unexpected character.'', l'))
            else if c = CHR ''|''
            then (let (m, l') = match_lexer l (CHR ''|'')
                  in if m then (makeToken l' TOKEN_OR, l')
                     else (errorToken l' ''Unexpected character.'', l'))
            else if c = CHR 0x22 then string_lexer l
            else (errorToken l ''Unexpected character.'', l)))"




subsection \<open>The scanner never moves backwards\<close>

lemma skipWhitespace_le: "length (lcurrent (skipWhitespace l)) \<le> length (lcurrent l)"
proof (induction l rule: skipWhitespace.induct)
  case (1 l)
  let ?c = "peek l"
  consider (blank) "?c = CHR '' '' \<or> ?c = CHR 0x0D \<or> ?c = CHR 0x09"
    | (newline) "?c = CHR 0x0A"
    | (comment) "?c = CHR ''/''" "peekNext l = CHR ''/''"
    | (slash) "?c = CHR ''/''" "peekNext l \<noteq> CHR ''/''"
    | (other) "?c \<noteq> CHR '' ''" "?c \<noteq> CHR 0x0D" "?c \<noteq> CHR 0x09"
        "?c \<noteq> CHR 0x0A" "?c \<noteq> CHR ''/''"
    by blast
  then show ?case
  proof cases
    case blank
    then have "skipWhitespace l = skipWhitespace (snd (advance_lexer l))"
      by (subst skipWhitespace.simps) auto
    moreover have "length (lcurrent (skipWhitespace (snd (advance_lexer l))))
                   \<le> length (lcurrent (snd (advance_lexer l)))"
      using blank by (intro "1.IH"(1)) auto
    ultimately show ?thesis by simp
  next
    case newline
    let ?l = "l\<lparr>lline := lline l + 1, lcolumn := 1\<rparr>"
    from newline have "skipWhitespace l = skipWhitespace (snd (advance_lexer ?l))"
      by (subst skipWhitespace.simps) auto
    moreover have "length (lcurrent (skipWhitespace (snd (advance_lexer ?l))))
                   \<le> length (lcurrent (snd (advance_lexer ?l)))"
      using newline by (intro "1.IH"(2)) auto
    ultimately show ?thesis by simp
  next
    case comment
    then have "skipWhitespace l = skipWhitespace (skipComment l)"
      by (subst skipWhitespace.simps) auto
    moreover have "length (lcurrent (skipWhitespace (skipComment l)))
                   \<le> length (lcurrent (skipComment l))"
      using comment by (intro "1.IH"(3)) auto
    moreover have "length (lcurrent (skipComment l)) \<le> length (lcurrent l)"
      by (rule skipComment_le)
    ultimately show ?thesis by simp
  next
    case slash
    then have "skipWhitespace l = l"
      by (subst skipWhitespace.simps) auto
    then show ?thesis by simp
  next
    case other
    then have "skipWhitespace l = l"
      by (subst skipWhitespace.simps) auto
    then show ?thesis by simp
  qed
qed

lemma identifierRun_le: "length (lcurrent (identifierRun l)) \<le> length (lcurrent l)"
proof (induction l rule: identifierRun.induct)
  case (1 l)
  show ?case
  proof (cases "isIdentifierPart (peek l)")
    case True
    then have "identifierRun l = identifierRun (snd (advance_lexer l))"
      by (subst identifierRun.simps) simp
    with 1 True show ?thesis by simp
  next
    case False
    then have "identifierRun l = l"
      by (subst identifierRun.simps) simp
    then show ?thesis by simp
  qed
qed

lemma digitRun_le: "length (lcurrent (digitRun l)) \<le> length (lcurrent l)"
proof (induction l rule: digitRun.induct)
  case (1 l)
  show ?case
  proof (cases "isDigit (peek l)")
    case True
    then have "digitRun l = digitRun (snd (advance_lexer l))"
      by (subst digitRun.simps) simp
    with 1 True show ?thesis by simp
  next
    case False
    then have "digitRun l = l"
      by (subst digitRun.simps) simp
    then show ?thesis by simp
  qed
qed

lemma stringRun_le: "length (lcurrent (stringRun l)) \<le> length (lcurrent l)"
proof (induction l rule: stringRun.induct)
  case (1 l)
  let ?l = "if peek l = CHR 0x0A then l\<lparr>lline := lline l + 1, lcolumn := 1\<rparr> else l"
  show ?case
  proof (cases "peek l \<noteq> CHR 0x22 \<and> \<not> isAtEnd l")
    case True
    then have "stringRun l = stringRun (snd (advance_lexer ?l))"
      by (subst stringRun.simps) simp
    moreover have "length (lcurrent (stringRun (snd (advance_lexer ?l))))
                   \<le> length (lcurrent (snd (advance_lexer ?l)))"
      using True by (intro "1.IH") auto
    moreover have "length (lcurrent (snd (advance_lexer ?l))) \<le> length (lcurrent l)"
      by simp
    ultimately show ?thesis by simp
  next
    case False
    then have "stringRun l = l"
      by (subst stringRun.simps) auto
    then show ?thesis by simp
  qed
qed

lemma match_lexer_le: "length (lcurrent (snd (match_lexer l c))) \<le> length (lcurrent l)"
  by (simp add: match_lexer_def)

lemma identifier_lexer_le:
  "length (lcurrent (snd (identifier_lexer l))) \<le> length (lcurrent l)"
  using identifierRun_le [of l]
  by (simp add: identifier_lexer_def Let_def split: option.splits)

lemma number_lexer_le: "length (lcurrent (snd (number_lexer l))) \<le> length (lcurrent l)"
proof -
  have "length (lcurrent (digitRun (snd (advance_lexer (digitRun l)))))
        \<le> length (lcurrent (digitRun l))"
    using digitRun_le [of "snd (advance_lexer (digitRun l))"] by simp
  then show ?thesis
    using digitRun_le [of l] by (simp add: number_lexer_def Let_def)
qed

lemma string_lexer_le: "length (lcurrent (snd (string_lexer l))) \<le> length (lcurrent l)"
proof -
  have "length (lcurrent (snd (advance_lexer (stringRun l)))) \<le> length (lcurrent (stringRun l))"
    by simp
  then show ?thesis
    using stringRun_le [of l] by (simp add: string_lexer_def Let_def del: advance_lexer_current)
qed

text \<open>
  What \<^verbatim>\<open>scanToken\<close> does after its first \<^verbatim>\<open>advance\<close>, as a function of the byte read.
\<close>

lemma scanToken_at_end:
  "isAtEnd ((skipWhitespace l)\<lparr>lstart := lcurrent (skipWhitespace l)\<rparr>) \<Longrightarrow>
   type (fst (scanToken l)) = TOKEN_EOF"
  by (simp add: scanToken_def Let_def makeToken_def)

lemma snd_if:
  "(c \<Longrightarrow> Q (snd a)) \<Longrightarrow> (\<not> c \<Longrightarrow> Q (snd b)) \<Longrightarrow> Q (snd (if c then a else b))"
  by simp

lemma scanToken_snd_cases:
  assumes "isAtEnd ((skipWhitespace l)\<lparr>lstart := lcurrent (skipWhitespace l)\<rparr>) \<Longrightarrow>
           Q ((skipWhitespace l)\<lparr>lstart := lcurrent (skipWhitespace l)\<rparr>)"
    and "\<And>l3. \<not> isAtEnd ((skipWhitespace l)\<lparr>lstart := lcurrent (skipWhitespace l)\<rparr>) \<Longrightarrow>
           l3 = snd (advance_lexer ((skipWhitespace l)\<lparr>lstart := lcurrent (skipWhitespace l)\<rparr>)) \<Longrightarrow>
           Q l3 \<and> Q (snd (identifier_lexer l3)) \<and> Q (snd (number_lexer l3)) \<and>
           Q (snd (string_lexer l3)) \<and> Q (snd (match_lexer l3 (CHR ''=''))) \<and>
           Q (snd (match_lexer l3 (CHR ''&''))) \<and> Q (snd (match_lexer l3 (CHR ''|'')))"
  shows "Q (snd (scanToken l))"
  unfolding scanToken_def Let_def split_beta
  by (intro snd_if [of _ Q]) (simp_all add: assms)

lemma scanToken_le: "length (lcurrent (snd (scanToken l))) \<le> length (lcurrent l)"
proof (rule scanToken_snd_cases [of l "\<lambda>x. length (lcurrent x) \<le> length (lcurrent l)"])
  show "length (lcurrent ((skipWhitespace l)\<lparr>lstart := lcurrent (skipWhitespace l)\<rparr>))
        \<le> length (lcurrent l)"
    using skipWhitespace_le [of l] by simp
next
  fix l3
  assume "l3 = snd (advance_lexer ((skipWhitespace l)\<lparr>lstart := lcurrent (skipWhitespace l)\<rparr>))"
  then have "length (lcurrent l3) \<le> length (lcurrent l)"
    using skipWhitespace_le [of l] by simp
  then show "length (lcurrent l3) \<le> length (lcurrent l) \<and>
        length (lcurrent (snd (identifier_lexer l3))) \<le> length (lcurrent l) \<and>
        length (lcurrent (snd (number_lexer l3))) \<le> length (lcurrent l) \<and>
        length (lcurrent (snd (string_lexer l3))) \<le> length (lcurrent l) \<and>
        length (lcurrent (snd (match_lexer l3 (CHR ''='')))) \<le> length (lcurrent l) \<and>
        length (lcurrent (snd (match_lexer l3 (CHR ''&'')))) \<le> length (lcurrent l) \<and>
        length (lcurrent (snd (match_lexer l3 (CHR ''|'')))) \<le> length (lcurrent l)"
    using identifier_lexer_le [of l3] number_lexer_le [of l3] string_lexer_le [of l3]
      match_lexer_le [of l3]
    by (meson order_trans)
qed

lemma scanToken_lt:
  assumes "type (fst (scanToken l)) \<noteq> TOKEN_EOF"
  shows "length (lcurrent (snd (scanToken l))) < length (lcurrent l)"
proof (rule scanToken_snd_cases [of l "\<lambda>x. length (lcurrent x) < length (lcurrent l)"])
  assume "isAtEnd ((skipWhitespace l)\<lparr>lstart := lcurrent (skipWhitespace l)\<rparr>)"
  with assms scanToken_at_end [of l]
  show "length (lcurrent ((skipWhitespace l)\<lparr>lstart := lcurrent (skipWhitespace l)\<rparr>))
        < length (lcurrent l)"
    by simp
next
  fix l3
  assume ne: "\<not> isAtEnd ((skipWhitespace l)\<lparr>lstart := lcurrent (skipWhitespace l)\<rparr>)"
    and l3: "l3 = snd (advance_lexer ((skipWhitespace l)\<lparr>lstart := lcurrent (skipWhitespace l)\<rparr>))"
  have "length (lcurrent l3) < length (lcurrent ((skipWhitespace l)\<lparr>lstart := lcurrent (skipWhitespace l)\<rparr>))"
    unfolding l3 using ne by (rule advance_lexer_shorter)
  then have "length (lcurrent l3) < length (lcurrent l)"
    using skipWhitespace_le [of l] by simp
  then show "length (lcurrent l3) < length (lcurrent l) \<and>
        length (lcurrent (snd (identifier_lexer l3))) < length (lcurrent l) \<and>
        length (lcurrent (snd (number_lexer l3))) < length (lcurrent l) \<and>
        length (lcurrent (snd (string_lexer l3))) < length (lcurrent l) \<and>
        length (lcurrent (snd (match_lexer l3 (CHR ''='')))) < length (lcurrent l) \<and>
        length (lcurrent (snd (match_lexer l3 (CHR ''&'')))) < length (lcurrent l) \<and>
        length (lcurrent (snd (match_lexer l3 (CHR ''|'')))) < length (lcurrent l)"
    using identifier_lexer_le [of l3] number_lexer_le [of l3] string_lexer_le [of l3]
      match_lexer_le [of l3]
    by (meson le_less_trans)
qed

subsection \<open>The token dump of the driver (src/main.c, option -t)\<close>

text \<open>
  \<^verbatim>\<open>do { token = scanToken(&lexer); printf(...); } while (token.type != TOKEN_EOF);\<close>
  The result is the sequence of tokens printed, one per line.
\<close>

function tokenize :: "Lexer \<Rightarrow> Token list" where
  "tokenize l =
     (let (token, l') = scanToken l
      in if type token \<noteq> TOKEN_EOF then token # tokenize l' else [token])"
  by pat_completeness auto
termination
proof (relation "measure (\<lambda>l. length (lcurrent l))", goal_cases)
  case 1
  show ?case by simp
next
  case (2 l x token l')
  then show ?case using scanToken_lt [of l] by (simp add: prod_eq_iff)
qed

declare tokenize.simps [simp del]

subsection \<open>No buffer makes the scanner return a keyword\<close>

text \<open>
  The bytes between \<^verbatim>\<open>start\<close> and \<^verbatim>\<open>current\<close> when \<^verbatim>\<open>identifier\<close> looks a keyword up
  are all bytes that \<^verbatim>\<open>isIdentifierPart\<close> accepts. Every keyword of the table has a byte
  that it rejects, so the search never finds one.
\<close>

definition scanned :: "Lexer \<Rightarrow> string \<Rightarrow> bool" where
  "scanned l pre = (lstart l = pre @ lcurrent l \<and> (\<forall>c \<in> set pre. isIdentifierPart c))"

lemma identifierRun_scanned:
  "scanned l pre \<Longrightarrow> \<exists>pre'. scanned (identifierRun l) pre'"
proof (induction l arbitrary: pre rule: identifierRun.induct)
  case (1 l)
  show ?case
  proof (cases "isIdentifierPart (peek l)")
    case True
    then have eq: "identifierRun l = identifierRun (snd (advance_lexer l))"
      by (subst identifierRun.simps) simp
    from True obtain c rest where cur: "lcurrent l = c # rest" and c: "isIdentifierPart c"
      by (cases "lcurrent l") (auto simp: peek_def)
    have "scanned (snd (advance_lexer l)) (pre @ [c])"
      using "1.prems" cur c by (simp add: scanned_def advance_lexer_def)
    from "1.IH" [OF True this] show ?thesis
      unfolding eq .
  next
    case False
    then have "identifierRun l = l"
      by (subst identifierRun.simps) simp
    with "1.prems" show ?thesis by auto
  qed
qed

lemma keyword_has_rejected_byte:
  "(keyword, token) \<in> set hindiKeywords \<Longrightarrow> \<exists>c \<in> set keyword. \<not> isIdentifierPart c"
  by (auto simp: hindiKeywords_def kw_int_def kw_float_def kw_char_def kw_void_def kw_if_def
      kw_else_def kw_for_def kw_while_def kw_do_def kw_break_def kw_continue_def kw_return_def
      isIdentifierPart_def isIdentifierStart_def isDigit_def)

lemma keywordLookup_scanned:
  assumes "scanned l pre" and "\<And>keyword token. (keyword, token) \<in> set entries \<Longrightarrow>
             \<exists>c \<in> set keyword. \<not> isIdentifierPart c"
  shows "keywordLookup l entries = None"
  using assms(2)
proof (induction entries)
  case Nil
  show ?case by simp
next
  case (Cons entry entries)
  obtain keyword token where entry: "entry = (keyword, token)"
    by (cases entry)
  have "\<not> (int (length (lstart l)) - int (length (lcurrent l)) = int (length keyword) \<and>
            take (length keyword) (lstart l) = keyword)"
  proof
    assume a: "int (length (lstart l)) - int (length (lcurrent l)) = int (length keyword) \<and>
            take (length keyword) (lstart l) = keyword"
    from assms(1) have s: "lstart l = pre @ lcurrent l" and p: "\<forall>c \<in> set pre. isIdentifierPart c"
      by (simp_all add: scanned_def)
    from a s have "length pre = length keyword" by simp
    with a s have "pre = keyword" by simp
    with p Cons.prems [of keyword token] entry show False by auto
  qed
  moreover have "keywordLookup l entries = None"
    by (rule Cons.IH) (use Cons.prems in auto)
  ultimately show ?case
    using entry by simp
qed

lemma identifier_lexer_type:
  assumes "scanned l pre"
  shows "type (fst (identifier_lexer l)) = TOKEN_IDENTIFIER"
proof -
  from identifierRun_scanned [OF assms] obtain pre' where "scanned (identifierRun l) pre'" ..
  then have "keywordLookup (identifierRun l) hindiKeywords = None"
    by (rule keywordLookup_scanned) (rule keyword_has_rejected_byte)
  then show ?thesis
    by (simp add: identifier_lexer_def makeToken_def Let_def)
qed

lemma fst_if:
  "(c \<Longrightarrow> Q (fst a)) \<Longrightarrow> (\<not> c \<Longrightarrow> Q (fst b)) \<Longrightarrow> Q (fst (if c then a else b))"
  by simp

definition keywordKinds :: "TokenType set" where
  "keywordKinds = snd ` set hindiKeywords"

lemma scanToken_never_keyword: "type (fst (scanToken l)) \<notin> keywordKinds"
proof -
  let ?l2 = "(skipWhitespace l)\<lparr>lstart := lcurrent (skipWhitespace l)\<rparr>"
  let ?Q = "\<lambda>t. type t \<notin> keywordKinds"
  have kinds: "keywordKinds = {TOKEN_INT, TOKEN_FLOAT, TOKEN_CHAR, TOKEN_VOID, TOKEN_IF,
      TOKEN_ELSE, TOKEN_FOR, TOKEN_WHILE, TOKEN_DO, TOKEN_BREAK, TOKEN_CONTINUE, TOKEN_RETURN}"
    by (auto simp: keywordKinds_def hindiKeywords_def)
  have ident: "?Q (fst (identifier_lexer (snd (advance_lexer ?l2))))"
    if "\<not> isAtEnd ?l2" "isIdentifierStart (fst (advance_lexer ?l2))"
  proof -
    from that(1) obtain c rest where cur: "lcurrent ?l2 = c # rest"
      by (cases "lcurrent ?l2") (auto simp: isAtEnd_def peek_def)
    with that(2) have "isIdentifierPart c"
      by (simp add: advance_lexer_def peek_def isIdentifierPart_def)
    with cur have "scanned (snd (advance_lexer ?l2)) [c]"
      by (simp add: scanned_def advance_lexer_def)
    from identifier_lexer_type [OF this] show ?thesis
      by (simp add: kinds)
  qed
  have number: "?Q (fst (number_lexer l'))" for l'
    by (simp add: number_lexer_def Let_def makeToken_def kinds)
  have str: "?Q (fst (string_lexer l'))" for l'
    by (simp add: string_lexer_def Let_def makeToken_def errorToken_def kinds)
  show ?thesis
    unfolding scanToken_def Let_def split_beta
    by (intro fst_if [of _ ?Q])
       (rule number str | (rule ident, assumption+)
         | simp add: makeToken_def errorToken_def kinds Let_def)+
qed

section \<open>Abstract syntax tree (include/ast.h, src/ast/ast.c)\<close>

text \<open>
  One constructor per value of \<^verbatim>\<open>AstNodeType\<close>. The first two arguments of every
  constructor are the header fields \<^verbatim>\<open>line\<close> and \<^verbatim>\<open>column\<close> of \<^verbatim>\<open>struct AstNode\<close>;
  the tag \<^verbatim>\<open>type\<close> is the constructor. The capacities of the growable arrays are
  memory management and are left out.

  A child pointer is an \<open>AstNode option\<close> where the parser can store \<^verbatim>\<open>NULL\<close> and an
  \<open>AstNode\<close> where it cannot: the constructors \<^verbatim>\<open>createIf\<close>, \<^verbatim>\<open>createWhile\<close>,
  \<^verbatim>\<open>createExpressionStmt\<close>, \<^verbatim>\<open>createBinary\<close> (left operand) and \<^verbatim>\<open>createUnary\<close> read
  the header of that child, \<^verbatim>\<open>statement\<close> returns the result of a constructor on every
  path, and \<^verbatim>\<open>parse\<close> and \<^verbatim>\<open>blockStatement\<close> drop \<^verbatim>\<open>NULL\<close> declarations. The body of a
  function declaration is always the \<^verbatim>\<open>AstBlock\<close> made by \<^verbatim>\<open>blockStatement\<close> (header
  0, 0), which the analyzer and the emitter cast to without a test; the model keeps the
  statements of that block.
\<close>

datatype AstNode =
    AstProgram int int "AstNode list"
  | AstFunctionDecl int int Token TokenType "(Token \<times> TokenType) list" "AstNode list"
  | AstVarDecl int int Token TokenType "AstNode option"
  | AstBlock int int "AstNode list"
  | AstIf int int AstNode AstNode "AstNode option"
  | AstWhile int int AstNode AstNode
  | AstFor int int "AstNode option" "AstNode option" "AstNode option" AstNode
  | AstReturn int int "AstNode option"
  | AstExpressionStmt int int AstNode
  | AstBinary int int AstNode TokenType "AstNode option"
  | AstUnary int int TokenType AstNode
  | AstLiteral int int Token
  | AstVariable int int Token
  | AstAssignment int int Token "AstNode option"
  | AstCall int int Token "AstNode option list"

text \<open>
  A measure for the recursion over the tree: every node weighs more than its children,
  and a list weighs more than each of its elements.
\<close>

primrec weight :: "AstNode \<Rightarrow> nat" where
  "weight (AstProgram l c ds) = 1 + sum_list (map weight ds) + length ds"
| "weight (AstFunctionDecl l c n t ps body) = 1 + sum_list (map weight body) + length body"
| "weight (AstVarDecl l c n t i) = 1 + case_option 0 id (map_option weight i)"
| "weight (AstBlock l c ss) = 1 + sum_list (map weight ss) + length ss"
| "weight (AstIf l c a b e) = 1 + weight a + weight b + case_option 0 id (map_option weight e)"
| "weight (AstWhile l c a b) = 1 + weight a + weight b"
| "weight (AstFor l c i a u b) = 1 + case_option 0 id (map_option weight i)
     + case_option 0 id (map_option weight a) + case_option 0 id (map_option weight u) + weight b"
| "weight (AstReturn l c v) = 1 + case_option 0 id (map_option weight v)"
| "weight (AstExpressionStmt l c e) = 1 + weight e"
| "weight (AstBinary l c a op b) = 1 + weight a + case_option 0 id (map_option weight b)"
| "weight (AstUnary l c op a) = 1 + weight a"
| "weight (AstLiteral l c t) = 1"
| "weight (AstVariable l c t) = 1"
| "weight (AstAssignment l c t v) = 1 + case_option 0 id (map_option weight v)"
| "weight (AstCall l c t as) =
     1 + sum_list (map (\<lambda>a. case_option 0 id a) (map (map_option weight) as)) + length as"

definition weightOpt :: "AstNode option \<Rightarrow> nat" where
  "weightOpt e = (case e of None \<Rightarrow> 0 | Some n \<Rightarrow> weight n)"

definition weightList :: "AstNode list \<Rightarrow> nat" where
  "weightList ns = sum_list (map weight ns) + length ns"

definition weightOptList :: "AstNode option list \<Rightarrow> nat" where
  "weightOptList es = sum_list (map weightOpt es) + length es"

lemma weightOpt_simps [simp]:
  "weightOpt None = 0" "weightOpt (Some n) = weight n"
  by (simp_all add: weightOpt_def)

lemma weightList_simps [simp]:
  "weightList [] = 0" "weightList (n # ns) = Suc (weight n + weightList ns)"
  by (simp_all add: weightList_def)

lemma weightOptList_simps [simp]:
  "weightOptList [] = 0" "weightOptList (e # es) = Suc (weightOpt e + weightOptList es)"
  by (simp_all add: weightOptList_def)

lemma weight_option_eq: "case_option 0 id (map_option weight e) = weightOpt e"
  by (cases e) simp_all

lemma weight_args_eq:
  "sum_list (map (\<lambda>a. case_option 0 id a) (map (map_option weight) es)) + length es
     = weightOptList es"
  by (induction es) (auto simp: weightOptList_def weightOpt_def split: option.splits)

lemma weight_eqs:
  "weight (AstProgram l c ds) = 1 + weightList ds"
  "weight (AstFunctionDecl l c n t ps body) = 1 + weightList body"
  "weight (AstVarDecl l c n t i) = 1 + weightOpt i"
  "weight (AstBlock l c ss) = 1 + weightList ss"
  "weight (AstIf l c a b e) = 1 + weight a + weight b + weightOpt e"
  "weight (AstWhile l c a b) = 1 + weight a + weight b"
  "weight (AstFor l c i a' u b) = 1 + weightOpt i + weightOpt a' + weightOpt u + weight b"
  "weight (AstReturn l c v) = 1 + weightOpt v"
  "weight (AstExpressionStmt l c a) = 1 + weight a"
  "weight (AstBinary l c a op v) = 1 + weight a + weightOpt v"
  "weight (AstUnary l c op a) = 1 + weight a"
  "weight (AstLiteral l c t') = 1"
  "weight (AstVariable l c t') = 1"
  "weight (AstAssignment l c t' v) = 1 + weightOpt v"
  "weight (AstCall l c t' as) = 1 + weightOptList as"
  using weight_args_eq [of as]
  by (simp_all only: weight.simps weight_option_eq weightList_def add.assoc)

declare weight.simps [simp del]

declare weight_eqs [simp]

lemma weight_pos [simp]: "0 < weight n"
  by (cases n) simp_all

text \<open>The header fields \<^verbatim>\<open>line\<close> and \<^verbatim>\<open>column\<close> of a node.\<close>

fun nodeLine :: "AstNode \<Rightarrow> int" where
  "nodeLine (AstProgram l c ds) = l"
| "nodeLine (AstFunctionDecl l c n t ps body) = l"
| "nodeLine (AstVarDecl l c n t i) = l"
| "nodeLine (AstBlock l c ss) = l"
| "nodeLine (AstIf l c a b e) = l"
| "nodeLine (AstWhile l c a b) = l"
| "nodeLine (AstFor l c i a u b) = l"
| "nodeLine (AstReturn l c v) = l"
| "nodeLine (AstExpressionStmt l c e) = l"
| "nodeLine (AstBinary l c a op b) = l"
| "nodeLine (AstUnary l c op a) = l"
| "nodeLine (AstLiteral l c t) = l"
| "nodeLine (AstVariable l c t) = l"
| "nodeLine (AstAssignment l c t v) = l"
| "nodeLine (AstCall l c t as) = l"

fun nodeColumn :: "AstNode \<Rightarrow> int" where
  "nodeColumn (AstProgram l c ds) = c"
| "nodeColumn (AstFunctionDecl l c n t ps body) = c"
| "nodeColumn (AstVarDecl l c n t i) = c"
| "nodeColumn (AstBlock l c ss) = c"
| "nodeColumn (AstIf l c a b e) = c"
| "nodeColumn (AstWhile l c a b) = c"
| "nodeColumn (AstFor l c i a u b) = c"
| "nodeColumn (AstReturn l c v) = c"
| "nodeColumn (AstExpressionStmt l c e) = c"
| "nodeColumn (AstBinary l c a op b) = c"
| "nodeColumn (AstUnary l c op a) = c"
| "nodeColumn (AstLiteral l c t) = c"
| "nodeColumn (AstVariable l c t) = c"
| "nodeColumn (AstAssignment l c t v) = c"
| "nodeColumn (AstCall l c t as) = c"

text \<open>
  What stops the C program where the model cannot go on: reading through \<^verbatim>\<open>NULL\<close>,
  reading behind the end of the source buffer, and (in the parser, which is modelled with
  fuel) the end of the fuel.
\<close>

datatype fault = NullDereference | OutOfBoundsRead | OutOfFuel

text \<open>
  A line \<^verbatim>\<open>Line %d, Column %d: Error: %s\<close> on the standard error stream: the two
  numbers and the message.
\<close>

type_synonym diagnostic = "int \<times> int \<times> string"

subsection \<open>Constructors (src/ast/ast.c)\<close>

text \<open>
  The constructors that read the header of a child (\<^verbatim>\<open>condition->line\<close>,
  \<^verbatim>\<open>expression->line\<close>, \<^verbatim>\<open>left->line\<close>, \<^verbatim>\<open>right->line\<close>) read through \<^verbatim>\<open>NULL\<close> when that
  child is \<^verbatim>\<open>NULL\<close>; the others test the pointer first or do not look at it.
\<close>

definition createVarDecl :: "Token \<Rightarrow> TokenType \<Rightarrow> AstNode option \<Rightarrow> AstNode" where
  "createVarDecl nm ty initializer = AstVarDecl (line nm) (column nm) nm ty initializer"

definition createIf :: "AstNode option \<Rightarrow> AstNode \<Rightarrow> AstNode option \<Rightarrow> fault + AstNode" where
  "createIf condition thenBranch elseBranch =
     (case condition of
        None \<Rightarrow> Inl NullDereference
      | Some c \<Rightarrow> Inr (AstIf (nodeLine c) (nodeColumn c) c thenBranch elseBranch))"

definition createWhile :: "AstNode option \<Rightarrow> AstNode \<Rightarrow> fault + AstNode" where
  "createWhile condition body =
     (case condition of
        None \<Rightarrow> Inl NullDereference
      | Some c \<Rightarrow> Inr (AstWhile (nodeLine c) (nodeColumn c) c body))"

definition createFor ::
  "AstNode option \<Rightarrow> AstNode option \<Rightarrow> AstNode option \<Rightarrow> AstNode \<Rightarrow> AstNode" where
  "createFor initializer condition increment body =
     (let firstNode = (case initializer of
                     Some i \<Rightarrow> i
                   | None \<Rightarrow> (case condition of
                               Some c \<Rightarrow> c
                             | None \<Rightarrow> (case increment of Some u \<Rightarrow> u | None \<Rightarrow> body)))
      in AstFor (nodeLine firstNode) (nodeColumn firstNode) initializer condition increment body)"

definition createReturn :: "AstNode option \<Rightarrow> AstNode" where
  "createReturn val =
     (case val of
        None \<Rightarrow> AstReturn 0 0 None
      | Some v \<Rightarrow> AstReturn (nodeLine v) (nodeColumn v) val)"

definition createExpressionStmt :: "AstNode option \<Rightarrow> fault + AstNode" where
  "createExpressionStmt expr =
     (case expr of
        None \<Rightarrow> Inl NullDereference
      | Some e \<Rightarrow> Inr (AstExpressionStmt (nodeLine e) (nodeColumn e) e))"

definition createBinary ::
  "AstNode option \<Rightarrow> TokenType \<Rightarrow> AstNode option \<Rightarrow> fault + AstNode" where
  "createBinary left op right =
     (case left of
        None \<Rightarrow> Inl NullDereference
      | Some a \<Rightarrow> Inr (AstBinary (nodeLine a) (nodeColumn a) a op right))"

definition createUnary :: "TokenType \<Rightarrow> AstNode option \<Rightarrow> fault + AstNode" where
  "createUnary op right =
     (case right of
        None \<Rightarrow> Inl NullDereference
      | Some a \<Rightarrow> Inr (AstUnary (nodeLine a) (nodeColumn a) op a))"

definition createLiteral :: "Token \<Rightarrow> AstNode" where
  "createLiteral v = AstLiteral (line v) (column v) v"

definition createVariable :: "Token \<Rightarrow> AstNode" where
  "createVariable nm = AstVariable (line nm) (column nm) nm"

definition createAssignment :: "Token \<Rightarrow> AstNode option \<Rightarrow> AstNode" where
  "createAssignment nm val = AstAssignment (line nm) (column nm) nm val"

section \<open>Parser (include/parser.h, src/parser/parser.c)\<close>

text \<open>
  \<^verbatim>\<open>struct Parser\<close>, with the scanner it points to, and \<open>stderr_p\<close>, the lines the parser
  has written to the standard error stream.
\<close>

record Parser =
  lexer :: Lexer
  current :: Token
  previous :: Token
  hadError :: bool
  panicMode :: bool
  stderr_p :: "diagnostic list"

definition parserError :: "Parser \<Rightarrow> string \<Rightarrow> Parser" where
  "parserError p message =
     (if panicMode p then p
      else p\<lparr>panicMode := True,
             stderr_p := stderr_p p @ [(line (current p), column (current p), message)],
             hadError := True\<rparr>)"

lemma lexer_parserError [simp]: "lexer (parserError p message) = lexer p"
  by (simp add: parserError_def)

text \<open>
  The loop of \<^verbatim>\<open>advance\<close>: scan until a token is not an error token, reporting each error
  token. An error token is never the last token of the buffer, so the loop ends.
\<close>

function advanceLoop :: "Parser \<Rightarrow> Parser" where
  "advanceLoop p =
     (let (t, l) = scanToken (lexer p);
          p1 = p\<lparr>current := t, lexer := l\<rparr>
      in if type t \<noteq> TOKEN_ERROR then p1 else advanceLoop (parserError p1 (start t)))"
  by pat_completeness auto
termination
proof (relation "measure (\<lambda>p. length (lcurrent (lexer p)))", goal_cases)
  case 1
  show ?case by simp
next
  case (2 p x t l p1)
  then have "type (fst (scanToken (lexer p))) \<noteq> TOKEN_EOF" "l = snd (scanToken (lexer p))"
    by (simp_all add: prod_eq_iff)
  then show ?case
    using 2 scanToken_lt [of "lexer p"] by simp
qed

declare advanceLoop.simps [simp del]

definition advance :: "Parser \<Rightarrow> Parser" where
  "advance p = advanceLoop (p\<lparr>previous := current p\<rparr>)"

definition check :: "Parser \<Rightarrow> TokenType \<Rightarrow> bool" where
  "check p ty = (type (current p) = ty)"

definition match :: "Parser \<Rightarrow> TokenType \<Rightarrow> bool \<times> Parser" where
  "match p ty = (if \<not> check p ty then (False, p) else (True, advance p))"

definition consume :: "Parser \<Rightarrow> TokenType \<Rightarrow> string \<Rightarrow> bool \<times> Parser" where
  "consume p ty message =
     (if check p ty then (True, advance p) else (False, parserError p message))"

text \<open>A chain \<^verbatim>\<open>match(parser, A) || match(parser, B) || ...\<close>, left to right.\<close>

fun matchAny :: "Parser \<Rightarrow> TokenType list \<Rightarrow> bool \<times> Parser" where
  "matchAny p [] = (False, p)"
| "matchAny p (ty # tys) =
     (let (m, p1) = match p ty in if m then (True, p1) else matchAny p1 tys)"

subsection \<open>The recovery routine\<close>

text \<open>
  \<^verbatim>\<open>synchronize\<close> is declared and defined in the parser; no parsing function calls it.
  Its loop ends because every token that \<^verbatim>\<open>advance\<close> scans, except the last one, takes
  bytes from the buffer.
\<close>

lemma advanceLoop_le:
  "length (lcurrent (lexer (advanceLoop p))) \<le> length (lcurrent (lexer p))"
proof (induction p rule: advanceLoop.induct)
  case (1 p)
  obtain t l where tl: "scanToken (lexer p) = (t, l)"
    by (cases "scanToken (lexer p)")
  let ?p1 = "p\<lparr>current := t, lexer := l\<rparr>"
  have le: "length (lcurrent l) \<le> length (lcurrent (lexer p))"
    using scanToken_le [of "lexer p"] tl by simp
  show ?case
  proof (cases "type t \<noteq> TOKEN_ERROR")
    case True
    then have "advanceLoop p = ?p1"
      using tl by (subst advanceLoop.simps) simp
    with le show ?thesis by simp
  next
    case False
    then have eq: "advanceLoop p = advanceLoop (parserError ?p1 (start t))"
      using tl by (subst advanceLoop.simps) simp
    have "length (lcurrent (lexer (advanceLoop (parserError ?p1 (start t)))))
          \<le> length (lcurrent (lexer (parserError ?p1 (start t))))"
      using False tl by (intro "1.IH" [of "(t, l)" t l ?p1]) simp_all
    with le show ?thesis unfolding eq by simp
  qed
qed

lemma advanceLoop_lt:
  "type (current (advanceLoop p)) \<noteq> TOKEN_EOF \<Longrightarrow>
   length (lcurrent (lexer (advanceLoop p))) < length (lcurrent (lexer p))"
proof (induction p rule: advanceLoop.induct)
  case (1 p)
  obtain t l where tl: "scanToken (lexer p) = (t, l)"
    by (cases "scanToken (lexer p)")
  let ?p1 = "p\<lparr>current := t, lexer := l\<rparr>"
  show ?case
  proof (cases "type t \<noteq> TOKEN_ERROR")
    case True
    then have eq: "advanceLoop p = ?p1"
      using tl by (subst advanceLoop.simps) simp
    with "1.prems" have "type (fst (scanToken (lexer p))) \<noteq> TOKEN_EOF"
      using tl by simp
    then have "length (lcurrent l) < length (lcurrent (lexer p))"
      using scanToken_lt [of "lexer p"] tl by simp
    with eq show ?thesis by simp
  next
    case False
    then have eq: "advanceLoop p = advanceLoop (parserError ?p1 (start t))"
      using tl by (subst advanceLoop.simps) simp
    have "length (lcurrent (lexer (advanceLoop (parserError ?p1 (start t)))))
          \<le> length (lcurrent (lexer (parserError ?p1 (start t))))"
      by (rule advanceLoop_le)
    moreover have "length (lcurrent l) < length (lcurrent (lexer p))"
      using False scanToken_lt [of "lexer p"] tl by simp
    ultimately show ?thesis unfolding eq by simp
  qed
qed

function synchronizeLoop :: "Parser \<Rightarrow> Parser" where
  "synchronizeLoop p =
     (if type (current p) \<noteq> TOKEN_EOF
      then (if type (previous p) = TOKEN_SEMICOLON then p
            else if type (current p) \<in> {TOKEN_INT, TOKEN_FLOAT, TOKEN_CHAR, TOKEN_VOID,
                                         TOKEN_IF, TOKEN_WHILE, TOKEN_FOR, TOKEN_RETURN}
            then p
            else synchronizeLoop (advance p))
      else p)"
  by pat_completeness auto
termination
proof (relation "measure (\<lambda>p. length (lcurrent (lexer p))
                               + (if type (current p) = TOKEN_EOF then 0 else 1))",
    goal_cases)
  case 1
  show ?case by simp
next
  case (2 p)
  let ?q = "p\<lparr>previous := current p\<rparr>"
  have le: "length (lcurrent (lexer (advanceLoop ?q))) \<le> length (lcurrent (lexer p))"
    using advanceLoop_le [of ?q] by simp
  have lt: "type (current (advanceLoop ?q)) \<noteq> TOKEN_EOF \<Longrightarrow>
      length (lcurrent (lexer (advanceLoop ?q))) < length (lcurrent (lexer p))"
    using advanceLoop_lt [of ?q] by simp
  from 2 le lt show ?case
    by (auto simp: advance_def)
qed

declare synchronizeLoop.simps [simp del]

definition synchronize :: "Parser \<Rightarrow> Parser" where
  "synchronize p = synchronizeLoop (p\<lparr>panicMode := False\<rparr>)"

definition initParser :: "Parser \<Rightarrow> Lexer \<Rightarrow> Parser" where
  "initParser p l = advance (p\<lparr>lexer := l, hadError := False, panicMode := False\<rparr>)"

text \<open>
  The test \<^verbatim>\<open>parser->lexer->current[0] == '(' || parser->lexer->current[1] == '('\<close> of
  \<^verbatim>\<open>declaration\<close>, on the raw bytes behind the current token. When \<^verbatim>\<open>current[0]\<close> is the
  terminating NUL, \<^verbatim>\<open>current[1]\<close> is behind the end of the buffer.
\<close>

definition parenFollows :: "Lexer \<Rightarrow> fault + bool" where
  "parenFollows l =
     (if peek l = CHR ''('' then Inr True
      else (case lcurrent l of
              [] \<Rightarrow> Inl OutOfBoundsRead
            | c # rest \<Rightarrow> Inr ((case rest of [] \<Rightarrow> CHR 0x00 | d # _ \<Rightarrow> d) = CHR ''('')))"

subsection \<open>Results of the parsing functions\<close>

text \<open>
  A parsing function returns a value and leaves the parser in a state, or it stops with
  a fault in a state. \<open>andThen\<close> is sequencing: what follows a call that stops is not run.
  The recursive descent is modelled with fuel: every call of a parsing function and every
  round of a loop uses one unit, and a run without fuel stops with \<open>OutOfFuel\<close>.
\<close>

datatype 'a outcome = Return 'a Parser | Abort fault Parser

definition andThen :: "'a outcome \<Rightarrow> ('a \<Rightarrow> Parser \<Rightarrow> 'b outcome) \<Rightarrow> 'b outcome" where
  "andThen m f = (case m of Return x p \<Rightarrow> f x p | Abort e p \<Rightarrow> Abort e p)"

definition lift :: "'a \<times> Parser \<Rightarrow> 'a outcome" where
  "lift r = Return (fst r) (snd r)"

definition report :: "Parser \<Rightarrow> string \<Rightarrow> unit outcome" where
  "report p message = Return () (parserError p message)"

definition liftNode :: "fault + 'a \<Rightarrow> Parser \<Rightarrow> 'a outcome" where
  "liftNode r p = (case r of Inl e \<Rightarrow> Abort e p | Inr x \<Rightarrow> Return x p)"

definition final :: "'a outcome \<Rightarrow> Parser" where
  "final m = (case m of Return x p \<Rightarrow> p | Abort e p \<Rightarrow> p)"

lemma andThen_simps [simp]:
  "andThen (Return x p) f = f x p"
  "andThen (Abort e p) f = Abort e p"
  by (simp_all add: andThen_def)

lemma final_simps [simp]:
  "final (Return x p) = p"
  "final (Abort e p) = p"
  by (simp_all add: final_def)

subsection \<open>The grammar\<close>

text \<open>The \<^verbatim>\<open>do ... while (match(parser, TOKEN_COMMA))\<close> loop of \<^verbatim>\<open>functionDeclaration\<close>.\<close>

fun parameters ::
  "nat \<Rightarrow> Parser \<Rightarrow> (Token \<times> TokenType) list \<Rightarrow> (Token \<times> TokenType) list outcome" where
  "parameters 0 p params = Abort OutOfFuel p"
| "parameters (Suc n) p params =
     (if int (length params) \<ge> 8
      then andThen (report p ''Too many function parameters.'') (\<lambda>_ p1. Return params p1)
      else
        andThen (lift (matchAny p [TOKEN_INT, TOKEN_FLOAT, TOKEN_CHAR])) (\<lambda>m p1.
        andThen
          (if m
           then (let paramType = type (previous p1) in
                 andThen (lift (consume p1 TOKEN_IDENTIFIER ''Expect parameter name.''))
                   (\<lambda>ok p2. Return (if ok then params @ [(previous p2, paramType)]
                                     else params) p2))
           else andThen (report p1 ''Expect parameter type.'') (\<lambda>_ p2. Return params p2))
          (\<lambda>params' p3.
        andThen (lift (match p3 TOKEN_COMMA)) (\<lambda>c p4.
          if c then parameters n p4 params' else Return params' p4))))"

text \<open>
  The parsing functions. \<^verbatim>\<open>blockStatement\<close> returns the statements of the block it
  creates; \<^verbatim>\<open>declaration\<close> and \<^verbatim>\<open>term\<close> are \<open>declaration_parser\<close> and
  \<open>term_parser\<close>. The loops of \<^verbatim>\<open>blockStatement\<close>, of the binary
  operator levels and of the arguments of a call are the functions whose names end in
  \<open>Loop\<close>.
\<close>

function declaration_parser :: "nat \<Rightarrow> Parser \<Rightarrow> AstNode option outcome"
  and varDeclaration :: "nat \<Rightarrow> Parser \<Rightarrow> TokenType \<Rightarrow> AstNode option outcome"
  and functionDeclaration :: "nat \<Rightarrow> Parser \<Rightarrow> TokenType \<Rightarrow> AstNode option outcome"
  and statement :: "nat \<Rightarrow> Parser \<Rightarrow> AstNode outcome"
  and blockStatement :: "nat \<Rightarrow> Parser \<Rightarrow> AstNode list outcome"
  and blockLoop :: "nat \<Rightarrow> Parser \<Rightarrow> AstNode list \<Rightarrow> AstNode list outcome"
  and ifStatement :: "nat \<Rightarrow> Parser \<Rightarrow> AstNode outcome"
  and whileStatement :: "nat \<Rightarrow> Parser \<Rightarrow> AstNode outcome"
  and forStatement :: "nat \<Rightarrow> Parser \<Rightarrow> AstNode outcome"
  and returnStatement :: "nat \<Rightarrow> Parser \<Rightarrow> AstNode outcome"
  and expressionStatement :: "nat \<Rightarrow> Parser \<Rightarrow> AstNode outcome"
  and expression :: "nat \<Rightarrow> Parser \<Rightarrow> AstNode option outcome"
  and assignment :: "nat \<Rightarrow> Parser \<Rightarrow> AstNode option outcome"
  and logicalOr :: "nat \<Rightarrow> Parser \<Rightarrow> AstNode option outcome"
  and logicalOrLoop :: "nat \<Rightarrow> Parser \<Rightarrow> AstNode option \<Rightarrow> AstNode option outcome"
  and logicalAnd :: "nat \<Rightarrow> Parser \<Rightarrow> AstNode option outcome"
  and logicalAndLoop :: "nat \<Rightarrow> Parser \<Rightarrow> AstNode option \<Rightarrow> AstNode option outcome"
  and equality :: "nat \<Rightarrow> Parser \<Rightarrow> AstNode option outcome"
  and equalityLoop :: "nat \<Rightarrow> Parser \<Rightarrow> AstNode option \<Rightarrow> AstNode option outcome"
  and comparison :: "nat \<Rightarrow> Parser \<Rightarrow> AstNode option outcome"
  and comparisonLoop :: "nat \<Rightarrow> Parser \<Rightarrow> AstNode option \<Rightarrow> AstNode option outcome"
  and term_parser :: "nat \<Rightarrow> Parser \<Rightarrow> AstNode option outcome"
  and termLoop :: "nat \<Rightarrow> Parser \<Rightarrow> AstNode option \<Rightarrow> AstNode option outcome"
  and factor :: "nat \<Rightarrow> Parser \<Rightarrow> AstNode option outcome"
  and factorLoop :: "nat \<Rightarrow> Parser \<Rightarrow> AstNode option \<Rightarrow> AstNode option outcome"
  and unary :: "nat \<Rightarrow> Parser \<Rightarrow> AstNode option outcome"
  and call :: "nat \<Rightarrow> Parser \<Rightarrow> AstNode option outcome"
  and argumentsLoop ::
    "nat \<Rightarrow> Parser \<Rightarrow> AstNode option list \<Rightarrow> AstNode option list outcome"
  and primary :: "nat \<Rightarrow> Parser \<Rightarrow> AstNode option outcome"
where
  "declaration_parser 0 p = Abort OutOfFuel p"
| "declaration_parser (Suc n) p =
     andThen (lift (matchAny p [TOKEN_INT, TOKEN_FLOAT, TOKEN_CHAR, TOKEN_VOID])) (\<lambda>m p1.
       if m
       then (let ty = type (previous p1) in
             if check p1 TOKEN_IDENTIFIER
             then (case parenFollows (lexer p1) of
                     Inl e \<Rightarrow> Abort e p1
                   | Inr True \<Rightarrow> functionDeclaration n p1 ty
                   | Inr False \<Rightarrow> varDeclaration n p1 ty)
             else varDeclaration n p1 ty)
       else andThen (statement n p1) (\<lambda>s p2. Return (Some s) p2))"
| "varDeclaration 0 p ty = Abort OutOfFuel p"
| "varDeclaration (Suc n) p ty =
     andThen (lift (consume p TOKEN_IDENTIFIER ''Expect variable name.'')) (\<lambda>ok p1.
       if \<not> ok then Return None p1
       else (let nm = previous p1 in
             andThen (lift (match p1 TOKEN_ASSIGN)) (\<lambda>m p2.
             andThen (if m then expression n p2 else Return None p2) (\<lambda>initializer p3.
             andThen (lift (consume p3 TOKEN_SEMICOLON
                              ''Expect ';' after variable declaration.'')) (\<lambda>_ p4.
               Return (Some (createVarDecl nm ty initializer)) p4)))))"
| "functionDeclaration 0 p returnType = Abort OutOfFuel p"
| "functionDeclaration (Suc n) p returnType =
     andThen (lift (consume p TOKEN_IDENTIFIER ''Expect function name.'')) (\<lambda>ok p1.
       if \<not> ok then Return None p1
       else (let nm = previous p1 in
             andThen (lift (consume p1 TOKEN_LPAREN ''Expect '(' after function name.''))
               (\<lambda>_ p2.
             andThen (if \<not> check p2 TOKEN_RPAREN then parameters n p2 [] else Return [] p2)
               (\<lambda>params p3.
             andThen (lift (consume p3 TOKEN_RPAREN ''Expect ')' after parameters.''))
               (\<lambda>_ p4.
             andThen (lift (consume p4 TOKEN_LBRACE ''Expect '{' before function body.''))
               (\<lambda>_ p5.
             andThen (blockStatement n p5) (\<lambda>body p6.
               Return (Some (AstFunctionDecl (line nm) (column nm) nm returnType params body))
                 p6)))))))"
| "statement 0 p = Abort OutOfFuel p"
| "statement (Suc n) p =
     andThen (lift (match p TOKEN_IF)) (\<lambda>m p1.
       if m then ifStatement n p1 else
     andThen (lift (match p1 TOKEN_WHILE)) (\<lambda>m p2.
       if m then whileStatement n p2 else
     andThen (lift (match p2 TOKEN_FOR)) (\<lambda>m p3.
       if m then forStatement n p3 else
     andThen (lift (match p3 TOKEN_RETURN)) (\<lambda>m p4.
       if m then returnStatement n p4 else
     andThen (lift (match p4 TOKEN_LBRACE)) (\<lambda>m p5.
       if m then andThen (blockStatement n p5) (\<lambda>ss p6. Return (AstBlock 0 0 ss) p6)
       else expressionStatement n p5)))))"
| "blockStatement 0 p = Abort OutOfFuel p"
| "blockStatement (Suc n) p =
     andThen (blockLoop n p []) (\<lambda>ss p1.
     andThen (lift (consume p1 TOKEN_RBRACE ''Expect '}' after block.'')) (\<lambda>_ p2.
       Return ss p2))"
| "blockLoop 0 p ss = Abort OutOfFuel p"
| "blockLoop (Suc n) p ss =
     (if \<not> check p TOKEN_RBRACE \<and> \<not> check p TOKEN_EOF
      then andThen (declaration_parser n p) (\<lambda>stmt p1.
             blockLoop n p1 (case stmt of None \<Rightarrow> ss | Some s \<Rightarrow> ss @ [s]))
      else Return ss p)"
| "ifStatement 0 p = Abort OutOfFuel p"
| "ifStatement (Suc n) p =
     andThen (lift (consume p TOKEN_LPAREN ''Expect '(' after 'if'.'')) (\<lambda>_ p1.
     andThen (expression n p1) (\<lambda>condition p2.
     andThen (lift (consume p2 TOKEN_RPAREN ''Expect ')' after if condition.'')) (\<lambda>_ p3.
     andThen (statement n p3) (\<lambda>thenBranch p4.
     andThen (lift (match p4 TOKEN_ELSE)) (\<lambda>m p5.
     andThen (if m then andThen (statement n p5) (\<lambda>s p6. Return (Some s) p6)
              else Return None p5) (\<lambda>elseBranch p7.
       liftNode (createIf condition thenBranch elseBranch) p7))))))"
| "whileStatement 0 p = Abort OutOfFuel p"
| "whileStatement (Suc n) p =
     andThen (lift (consume p TOKEN_LPAREN ''Expect '(' after 'while'.'')) (\<lambda>_ p1.
     andThen (expression n p1) (\<lambda>condition p2.
     andThen (lift (consume p2 TOKEN_RPAREN ''Expect ')' after while condition.''))
       (\<lambda>_ p3.
     andThen (statement n p3) (\<lambda>body p4.
       liftNode (createWhile condition body) p4))))"
| "forStatement 0 p = Abort OutOfFuel p"
| "forStatement (Suc n) p =
     andThen (lift (consume p TOKEN_LPAREN ''Expect '(' after 'for'.'')) (\<lambda>_ p1.
     andThen (lift (match p1 TOKEN_SEMICOLON)) (\<lambda>m p2.
     andThen
       (if m then Return None p2
        else andThen (lift (matchAny p2 [TOKEN_INT, TOKEN_FLOAT, TOKEN_CHAR])) (\<lambda>m' p3.
               if m' then varDeclaration n p3 (type (previous p3))
               else andThen (expressionStatement n p3) (\<lambda>s p4. Return (Some s) p4)))
       (\<lambda>initializer p5.
     andThen (if \<not> check p5 TOKEN_SEMICOLON then expression n p5 else Return None p5)
       (\<lambda>condition p6.
     andThen (lift (consume p6 TOKEN_SEMICOLON ''Expect ';' after loop condition.''))
       (\<lambda>_ p7.
     andThen (if \<not> check p7 TOKEN_RPAREN then expression n p7 else Return None p7)
       (\<lambda>increment p8.
     andThen (lift (consume p8 TOKEN_RPAREN ''Expect ')' after for clauses.'')) (\<lambda>_ p9.
     andThen (statement n p9) (\<lambda>body p10.
       Return (createFor initializer condition increment body) p10))))))))"
| "returnStatement 0 p = Abort OutOfFuel p"
| "returnStatement (Suc n) p =
     andThen (if \<not> check p TOKEN_SEMICOLON then expression n p else Return None p)
       (\<lambda>val p1.
     andThen (lift (consume p1 TOKEN_SEMICOLON ''Expect ';' after return value.''))
       (\<lambda>_ p2.
       Return (createReturn val) p2))"
| "expressionStatement 0 p = Abort OutOfFuel p"
| "expressionStatement (Suc n) p =
     andThen (expression n p) (\<lambda>expr p1.
     andThen (lift (consume p1 TOKEN_SEMICOLON ''Expect ';' after expression.'')) (\<lambda>_ p2.
       liftNode (createExpressionStmt expr) p2))"
| "expression 0 p = Abort OutOfFuel p"
| "expression (Suc n) p = assignment n p"
| "assignment 0 p = Abort OutOfFuel p"
| "assignment (Suc n) p =
     andThen (logicalOr n p) (\<lambda>expr p1.
     andThen (lift (match p1 TOKEN_ASSIGN)) (\<lambda>m p2.
       if m
       then andThen (assignment n p2) (\<lambda>val p3.
              case expr of
                None \<Rightarrow> Abort NullDereference p3
              | Some (AstVariable l c nm) \<Rightarrow> Return (Some (createAssignment nm val)) p3
              | Some _ \<Rightarrow>
                  andThen (report p3 ''Invalid assignment target.'') (\<lambda>_ p4.
                    Return expr p4))
       else Return expr p2))"
| "logicalOr 0 p = Abort OutOfFuel p"
| "logicalOr (Suc n) p = andThen (logicalAnd n p) (\<lambda>expr p1. logicalOrLoop n p1 expr)"
| "logicalOrLoop 0 p expr = Abort OutOfFuel p"
| "logicalOrLoop (Suc n) p expr =
     andThen (lift (match p TOKEN_OR)) (\<lambda>m p1.
       if m
       then (let op = type (previous p1) in
             andThen (logicalAnd n p1) (\<lambda>right p2.
             andThen (liftNode (createBinary expr op right) p2) (\<lambda>e p3.
               logicalOrLoop n p3 (Some e))))
       else Return expr p1)"
| "logicalAnd 0 p = Abort OutOfFuel p"
| "logicalAnd (Suc n) p = andThen (equality n p) (\<lambda>expr p1. logicalAndLoop n p1 expr)"
| "logicalAndLoop 0 p expr = Abort OutOfFuel p"
| "logicalAndLoop (Suc n) p expr =
     andThen (lift (match p TOKEN_AND)) (\<lambda>m p1.
       if m
       then (let op = type (previous p1) in
             andThen (equality n p1) (\<lambda>right p2.
             andThen (liftNode (createBinary expr op right) p2) (\<lambda>e p3.
               logicalAndLoop n p3 (Some e))))
       else Return expr p1)"
| "equality 0 p = Abort OutOfFuel p"
| "equality (Suc n) p = andThen (comparison n p) (\<lambda>expr p1. equalityLoop n p1 expr)"
| "equalityLoop 0 p expr = Abort OutOfFuel p"
| "equalityLoop (Suc n) p expr =
     andThen (lift (matchAny p [TOKEN_EQUALS, TOKEN_NOT_EQUALS])) (\<lambda>m p1.
       if m
       then (let op = type (previous p1) in
             andThen (comparison n p1) (\<lambda>right p2.
             andThen (liftNode (createBinary expr op right) p2) (\<lambda>e p3.
               equalityLoop n p3 (Some e))))
       else Return expr p1)"
| "comparison 0 p = Abort OutOfFuel p"
| "comparison (Suc n) p = andThen (term_parser n p) (\<lambda>expr p1. comparisonLoop n p1 expr)"
| "comparisonLoop 0 p expr = Abort OutOfFuel p"
| "comparisonLoop (Suc n) p expr =
     andThen (lift (matchAny p [TOKEN_LESS, TOKEN_GREATER, TOKEN_LESS_EQ, TOKEN_GREATER_EQ]))
       (\<lambda>m p1.
       if m
       then (let op = type (previous p1) in
             andThen (term_parser n p1) (\<lambda>right p2.
             andThen (liftNode (createBinary expr op right) p2) (\<lambda>e p3.
               comparisonLoop n p3 (Some e))))
       else Return expr p1)"
| "term_parser 0 p = Abort OutOfFuel p"
| "term_parser (Suc n) p = andThen (factor n p) (\<lambda>expr p1. termLoop n p1 expr)"
| "termLoop 0 p expr = Abort OutOfFuel p"
| "termLoop (Suc n) p expr =
     andThen (lift (matchAny p [TOKEN_PLUS, TOKEN_MINUS])) (\<lambda>m p1.
       if m
       then (let op = type (previous p1) in
             andThen (factor n p1) (\<lambda>right p2.
             andThen (liftNode (createBinary expr op right) p2) (\<lambda>e p3.
               termLoop n p3 (Some e))))
       else Return expr p1)"
| "factor 0 p = Abort OutOfFuel p"
| "factor (Suc n) p = andThen (unary n p) (\<lambda>expr p1. factorLoop n p1 expr)"
| "factorLoop 0 p expr = Abort OutOfFuel p"
| "factorLoop (Suc n) p expr =
     andThen (lift (matchAny p [TOKEN_MULTIPLY, TOKEN_DIVIDE, TOKEN_MODULO])) (\<lambda>m p1.
       if m
       then (let op = type (previous p1) in
             andThen (unary n p1) (\<lambda>right p2.
             andThen (liftNode (createBinary expr op right) p2) (\<lambda>e p3.
               factorLoop n p3 (Some e))))
       else Return expr p1)"
| "unary 0 p = Abort OutOfFuel p"
| "unary (Suc n) p =
     andThen (lift (matchAny p [TOKEN_MINUS, TOKEN_NOT])) (\<lambda>m p1.
       if m
       then (let op = type (previous p1) in
             andThen (unary n p1) (\<lambda>right p2.
             andThen (liftNode (createUnary op right) p2) (\<lambda>e p3. Return (Some e) p3)))
       else call n p1)"
| "call 0 p = Abort OutOfFuel p"
| "call (Suc n) p =
     andThen (primary n p) (\<lambda>expr p1.
     andThen (lift (match p1 TOKEN_LPAREN)) (\<lambda>m p2.
       if m
       then (case expr of
               None \<Rightarrow> Abort NullDereference p2
             | Some (AstVariable l c nm) \<Rightarrow>
                 andThen (if \<not> check p2 TOKEN_RPAREN then argumentsLoop n p2 []
                          else Return [] p2) (\<lambda>args p3.
                 andThen (lift (consume p3 TOKEN_RPAREN ''Expect ')' after arguments.''))
                   (\<lambda>_ p4.
                   Return (Some (AstCall (line nm) (column nm) nm args)) p4))
             | Some _ \<Rightarrow>
                 andThen (report p2 ''Can only call functions.'') (\<lambda>_ p3. Return expr p3))
       else Return expr p2))"
| "argumentsLoop 0 p args = Abort OutOfFuel p"
| "argumentsLoop (Suc n) p args =
     andThen (expression n p) (\<lambda>argument p1.
     andThen (lift (match p1 TOKEN_COMMA)) (\<lambda>m p2.
       if m then argumentsLoop n p2 (args @ [argument])
       else Return (args @ [argument]) p2))"
| "primary 0 p = Abort OutOfFuel p"
| "primary (Suc n) p =
     andThen (lift (match p TOKEN_NUMBER)) (\<lambda>m p1.
       if m then Return (Some (createLiteral (previous p1))) p1 else
     andThen (lift (match p1 TOKEN_STRING)) (\<lambda>m p2.
       if m then Return (Some (createLiteral (previous p2))) p2 else
     andThen (lift (match p2 TOKEN_IDENTIFIER)) (\<lambda>m p3.
       if m then Return (Some (createVariable (previous p3))) p3 else
     andThen (lift (match p3 TOKEN_LPAREN)) (\<lambda>m p4.
       if m
       then andThen (expression n p4) (\<lambda>expr p5.
            andThen (lift (consume p5 TOKEN_RPAREN ''Expect ')' after expression.''))
              (\<lambda>_ p6.
              Return expr p6))
       else andThen (report p4 ''Expect expression.'') (\<lambda>_ p5. Return None p5)))))"
  by pat_completeness auto
termination
  by (relation "measure
    (case_sum (case_sum (case_sum (case_sum fst (case_sum fst fst)) (case_sum (case_sum fst fst) (case_sum fst fst))) (case_sum (case_sum fst (case_sum fst fst)) (case_sum (case_sum fst fst) (case_sum fst fst)))) (case_sum (case_sum (case_sum fst (case_sum fst fst)) (case_sum (case_sum fst fst) (case_sum fst fst))) (case_sum (case_sum (case_sum fst fst) (case_sum fst fst)) (case_sum (case_sum fst fst) (case_sum fst fst)))))")
     simp_all

text \<open>The loop of \<^verbatim>\<open>parse\<close>, and \<^verbatim>\<open>parse\<close>: the declarations of the program.\<close>

fun parseLoop :: "nat \<Rightarrow> Parser \<Rightarrow> AstNode list \<Rightarrow> AstNode list outcome" where
  "parseLoop 0 p ds = Abort OutOfFuel p"
| "parseLoop (Suc n) p ds =
     (if \<not> check p TOKEN_EOF
      then andThen (declaration_parser n p) (\<lambda>decl p1.
             parseLoop n p1 (case decl of None \<Rightarrow> ds | Some d \<Rightarrow> ds @ [d]))
      else Return ds p)"

definition parse :: "nat \<Rightarrow> Parser \<Rightarrow> AstNode outcome" where
  "parse n p = andThen (parseLoop n p []) (\<lambda>ds p1. Return (AstProgram 0 0 ds) p1)"

text \<open>
  The \<^verbatim>\<open>Parser\<close> struct as the driver declares it, before \<^verbatim>\<open>initParser\<close>. In C its token
  fields are not initialised (and \<^verbatim>\<open>advance\<close> copies \<^verbatim>\<open>current\<close> to \<^verbatim>\<open>previous\<close>); the
  model takes a token with all fields zero.
\<close>

definition blankToken :: Token where
  "blankToken = \<lparr>type = TOKEN_EOF, start = [], tlength = 0, line = 0, column = 0\<rparr>"

definition blankParser :: Parser where
  "blankParser = \<lparr>lexer = initLexer [], current = blankToken, previous = blankToken,
                  hadError = False, panicMode = False, stderr_p = []\<rparr>"

text \<open>What a run returns, without the state of the parser.\<close>

definition returned :: "'a outcome \<Rightarrow> fault + 'a" where
  "returned m = (case m of Return x p \<Rightarrow> Inr x | Abort e p \<Rightarrow> Inl e)"

subsection \<open>Panic mode\<close>

text \<open>
  \<open>keeps p q\<close>: \<open>q\<close> can be a later state than \<open>p\<close> in one run of the parser. If panic
  mode is on in \<open>p\<close>, it is on in \<open>q\<close> and nothing has been printed in between; if the
  error flag is set in \<open>p\<close>, it is set in \<open>q\<close>; and if panic mode is off in \<open>p\<close>, then
  either it is still off in \<open>q\<close> and nothing has been printed, or it is on, the error
  flag is set and exactly one diagnostic has been printed.
\<close>

definition keeps :: "Parser \<Rightarrow> Parser \<Rightarrow> bool" where
  "keeps p q =
     ((panicMode p \<longrightarrow> panicMode q \<and> stderr_p q = stderr_p p \<and> hadError q = hadError p) \<and>
      (hadError p \<longrightarrow> hadError q) \<and>
      (\<not> panicMode p \<longrightarrow>
         (\<not> panicMode q \<and> stderr_p q = stderr_p p \<and> hadError q = hadError p) \<or>
         (panicMode q \<and> hadError q \<and> (\<exists>d. stderr_p q = stderr_p p @ [d]))))"

lemma keeps_refl [simp]: "keeps p p"
  by (simp add: keeps_def)

lemma keeps_trans: "keeps p q \<Longrightarrow> keeps q r \<Longrightarrow> keeps p r"
  unfolding keeps_def by (cases "panicMode p"; cases "panicMode q") auto

lemma keeps_parserError: "keeps p (parserError p message)"
  by (simp add: keeps_def parserError_def)

lemma keeps_scanned: "keeps p (p\<lparr>current := t, lexer := l\<rparr>)"
  by (simp add: keeps_def)

lemma keeps_advanceLoop: "keeps p (advanceLoop p)"
proof (induction p rule: advanceLoop.induct)
  case (1 p)
  obtain t l where tl: "scanToken (lexer p) = (t, l)"
    by (cases "scanToken (lexer p)")
  let ?p1 = "p\<lparr>current := t, lexer := l\<rparr>"
  show ?case
  proof (cases "type t \<noteq> TOKEN_ERROR")
    case True
    then have "advanceLoop p = ?p1"
      using tl by (subst advanceLoop.simps) simp
    then show ?thesis by (simp add: keeps_scanned)
  next
    case False
    then have eq: "advanceLoop p = advanceLoop (parserError ?p1 (start t))"
      using tl by (subst advanceLoop.simps) simp
    have "keeps (parserError ?p1 (start t)) (advanceLoop (parserError ?p1 (start t)))"
      using False tl by (intro "1.IH" [of "(t, l)" t l ?p1]) simp_all
    then have "keeps ?p1 (advanceLoop (parserError ?p1 (start t)))"
      using keeps_parserError keeps_trans by blast
    then show ?thesis
      unfolding eq using keeps_scanned keeps_trans by blast
  qed
qed

lemma keeps_advance: "keeps p (advance p)"
proof -
  have "keeps p (p\<lparr>previous := current p\<rparr>)"
    by (simp add: keeps_def)
  then show ?thesis
    unfolding advance_def using keeps_advanceLoop keeps_trans by blast
qed

lemma keeps_match: "keeps p (snd (match p ty))"
  by (simp add: match_def keeps_advance)

lemma keeps_consume: "keeps p (snd (consume p ty message))"
  by (simp add: consume_def keeps_advance keeps_parserError)

lemma keeps_matchAny: "keeps p (snd (matchAny p tys))"
proof (induction tys arbitrary: p)
  case Nil
  show ?case by simp
next
  case (Cons ty tys)
  show ?case
    using keeps_match [of p ty] Cons [of "snd (match p ty)"]
    by (auto simp: split_beta intro: keeps_trans)
qed

declare matchAny.simps [simp del]

lemma keeps_andThen:
  assumes "keeps p (final m)" and "\<And>x q. keeps q (final (f x q))"
  shows "keeps p (final (andThen m f))"
proof (cases m)
  case (Return x q)
  with assms(1) have "keeps p q" by simp
  with assms(2) [of q x] Return show ?thesis
    by (auto intro: keeps_trans)
next
  case (Abort e q)
  with assms(1) show ?thesis by simp
qed

lemma keeps_lift: "keeps p (snd r) \<Longrightarrow> keeps p (final (lift r))"
  by (simp add: lift_def)

lemma keeps_report: "keeps p (final (report p message))"
  by (simp add: report_def keeps_parserError)

lemma keeps_liftNode: "keeps p (final (liftNode r p))"
  by (simp add: liftNode_def split: sum.splits)

lemmas keeps_intros =
  keeps_andThen keeps_lift keeps_match keeps_matchAny keeps_consume keeps_report keeps_liftNode

lemma parameters_keeps: "keeps p (final (parameters n p params))"
  by (induction n arbitrary: p params) (auto simp: Let_def intro!: keeps_intros)

lemma declaration_parser_keeps:
  assumes "\<And>p ty. keeps p (final (varDeclaration n p ty))"
    and "\<And>p ty. keeps p (final (functionDeclaration n p ty))"
    and "\<And>p. keeps p (final (statement n p))"
  shows "keeps p (final (declaration_parser (Suc n) p))"
  by (auto simp: Let_def intro!: keeps_intros assms split: sum.splits bool.splits)

lemma varDeclaration_keeps:
  assumes "\<And>p. keeps p (final (expression n p))"
  shows "keeps p (final (varDeclaration (Suc n) p ty))"
  by (auto simp: Let_def intro!: keeps_intros assms)

lemma functionDeclaration_keeps:
  assumes "\<And>p. keeps p (final (blockStatement n p))"
  shows "keeps p (final (functionDeclaration (Suc n) p ty))"
  by (auto simp: Let_def intro!: keeps_intros assms parameters_keeps)

lemma statement_keeps:
  assumes "\<And>p. keeps p (final (ifStatement n p))"
    and "\<And>p. keeps p (final (whileStatement n p))"
    and "\<And>p. keeps p (final (forStatement n p))"
    and "\<And>p. keeps p (final (returnStatement n p))"
    and "\<And>p. keeps p (final (blockStatement n p))"
    and "\<And>p. keeps p (final (expressionStatement n p))"
  shows "keeps p (final (statement (Suc n) p))"
  by (auto simp: Let_def intro!: keeps_intros assms)

lemma blockStatement_keeps:
  assumes "\<And>p ss. keeps p (final (blockLoop n p ss))"
  shows "keeps p (final (blockStatement (Suc n) p))"
  by (auto simp: Let_def intro!: keeps_intros assms)

lemma blockLoop_keeps:
  assumes "\<And>p. keeps p (final (declaration_parser n p))"
    and "\<And>p ss. keeps p (final (blockLoop n p ss))"
  shows "keeps p (final (blockLoop (Suc n) p ss))"
  by (auto simp: Let_def intro!: keeps_intros assms)

lemma ifStatement_keeps:
  assumes "\<And>p. keeps p (final (expression n p))"
    and "\<And>p. keeps p (final (statement n p))"
  shows "keeps p (final (ifStatement (Suc n) p))"
  by (auto simp: Let_def intro!: keeps_intros assms)

lemma whileStatement_keeps:
  assumes "\<And>p. keeps p (final (expression n p))"
    and "\<And>p. keeps p (final (statement n p))"
  shows "keeps p (final (whileStatement (Suc n) p))"
  by (auto simp: Let_def intro!: keeps_intros assms)

lemma forStatement_keeps:
  assumes "\<And>p ty. keeps p (final (varDeclaration n p ty))"
    and "\<And>p. keeps p (final (expressionStatement n p))"
    and "\<And>p. keeps p (final (expression n p))"
    and "\<And>p. keeps p (final (statement n p))"
  shows "keeps p (final (forStatement (Suc n) p))"
  by (auto simp: Let_def intro!: keeps_intros assms)

lemma returnStatement_keeps:
  assumes "\<And>p. keeps p (final (expression n p))"
  shows "keeps p (final (returnStatement (Suc n) p))"
  by (auto simp: Let_def intro!: keeps_intros assms)

lemma expressionStatement_keeps:
  assumes "\<And>p. keeps p (final (expression n p))"
  shows "keeps p (final (expressionStatement (Suc n) p))"
  by (auto simp: Let_def intro!: keeps_intros assms)

lemma expression_keeps:
  assumes "\<And>p. keeps p (final (assignment n p))"
  shows "keeps p (final (expression (Suc n) p))"
  by (auto simp: Let_def intro!: keeps_intros assms)

lemma assignment_keeps:
  assumes "\<And>p. keeps p (final (logicalOr n p))"
    and "\<And>p. keeps p (final (assignment n p))"
  shows "keeps p (final (assignment (Suc n) p))"
  by (auto simp: Let_def intro!: keeps_intros assms split: option.splits AstNode.splits)

lemma logicalOr_keeps:
  assumes "\<And>p. keeps p (final (logicalAnd n p))"
    and "\<And>p e. keeps p (final (logicalOrLoop n p e))"
  shows "keeps p (final (logicalOr (Suc n) p))"
  by (auto simp: Let_def intro!: keeps_intros assms)

lemma logicalOrLoop_keeps:
  assumes "\<And>p. keeps p (final (logicalAnd n p))"
    and "\<And>p e. keeps p (final (logicalOrLoop n p e))"
  shows "keeps p (final (logicalOrLoop (Suc n) p e))"
  by (auto simp: Let_def intro!: keeps_intros assms)

lemma logicalAnd_keeps:
  assumes "\<And>p. keeps p (final (equality n p))"
    and "\<And>p e. keeps p (final (logicalAndLoop n p e))"
  shows "keeps p (final (logicalAnd (Suc n) p))"
  by (auto simp: Let_def intro!: keeps_intros assms)

lemma logicalAndLoop_keeps:
  assumes "\<And>p. keeps p (final (equality n p))"
    and "\<And>p e. keeps p (final (logicalAndLoop n p e))"
  shows "keeps p (final (logicalAndLoop (Suc n) p e))"
  by (auto simp: Let_def intro!: keeps_intros assms)

lemma equality_keeps:
  assumes "\<And>p. keeps p (final (comparison n p))"
    and "\<And>p e. keeps p (final (equalityLoop n p e))"
  shows "keeps p (final (equality (Suc n) p))"
  by (auto simp: Let_def intro!: keeps_intros assms)

lemma equalityLoop_keeps:
  assumes "\<And>p. keeps p (final (comparison n p))"
    and "\<And>p e. keeps p (final (equalityLoop n p e))"
  shows "keeps p (final (equalityLoop (Suc n) p e))"
  by (auto simp: Let_def intro!: keeps_intros assms)

lemma comparison_keeps:
  assumes "\<And>p. keeps p (final (term_parser n p))"
    and "\<And>p e. keeps p (final (comparisonLoop n p e))"
  shows "keeps p (final (comparison (Suc n) p))"
  by (auto simp: Let_def intro!: keeps_intros assms)

lemma comparisonLoop_keeps:
  assumes "\<And>p. keeps p (final (term_parser n p))"
    and "\<And>p e. keeps p (final (comparisonLoop n p e))"
  shows "keeps p (final (comparisonLoop (Suc n) p e))"
  by (auto simp: Let_def intro!: keeps_intros assms)

lemma term_parser_keeps:
  assumes "\<And>p. keeps p (final (factor n p))"
    and "\<And>p e. keeps p (final (termLoop n p e))"
  shows "keeps p (final (term_parser (Suc n) p))"
  by (auto simp: Let_def intro!: keeps_intros assms)

lemma termLoop_keeps:
  assumes "\<And>p. keeps p (final (factor n p))"
    and "\<And>p e. keeps p (final (termLoop n p e))"
  shows "keeps p (final (termLoop (Suc n) p e))"
  by (auto simp: Let_def intro!: keeps_intros assms)

lemma factor_keeps:
  assumes "\<And>p. keeps p (final (unary n p))"
    and "\<And>p e. keeps p (final (factorLoop n p e))"
  shows "keeps p (final (factor (Suc n) p))"
  by (auto simp: Let_def intro!: keeps_intros assms)

lemma factorLoop_keeps:
  assumes "\<And>p. keeps p (final (unary n p))"
    and "\<And>p e. keeps p (final (factorLoop n p e))"
  shows "keeps p (final (factorLoop (Suc n) p e))"
  by (auto simp: Let_def intro!: keeps_intros assms)

lemma unary_keeps:
  assumes "\<And>p. keeps p (final (unary n p))"
    and "\<And>p. keeps p (final (call n p))"
  shows "keeps p (final (unary (Suc n) p))"
  by (auto simp: Let_def intro!: keeps_intros assms)

lemma call_keeps:
  assumes "\<And>p. keeps p (final (primary n p))"
    and "\<And>p args. keeps p (final (argumentsLoop n p args))"
  shows "keeps p (final (call (Suc n) p))"
  by (auto simp: Let_def intro!: keeps_intros assms split: option.splits AstNode.splits)

lemma argumentsLoop_keeps:
  assumes "\<And>p. keeps p (final (expression n p))"
    and "\<And>p args. keeps p (final (argumentsLoop n p args))"
  shows "keeps p (final (argumentsLoop (Suc n) p args))"
  by (auto simp: Let_def intro!: keeps_intros assms)

lemma primary_keeps:
  assumes "\<And>p. keeps p (final (expression n p))"
  shows "keeps p (final (primary (Suc n) p))"
  by (auto simp: Let_def intro!: keeps_intros assms)

text \<open>All parsing functions with fuel \<open>n\<close> at once.\<close>

definition parserKeeps :: "nat \<Rightarrow> bool" where
  "parserKeeps n =
     ((\<forall>p. keeps p (final (declaration_parser n p))) \<and>
      (\<forall>p ty. keeps p (final (varDeclaration n p ty))) \<and>
      (\<forall>p ty. keeps p (final (functionDeclaration n p ty))) \<and>
      (\<forall>p. keeps p (final (statement n p))) \<and>
      (\<forall>p. keeps p (final (blockStatement n p))) \<and>
      (\<forall>p ss. keeps p (final (blockLoop n p ss))) \<and>
      (\<forall>p. keeps p (final (ifStatement n p))) \<and>
      (\<forall>p. keeps p (final (whileStatement n p))) \<and>
      (\<forall>p. keeps p (final (forStatement n p))) \<and>
      (\<forall>p. keeps p (final (returnStatement n p))) \<and>
      (\<forall>p. keeps p (final (expressionStatement n p))) \<and>
      (\<forall>p. keeps p (final (expression n p))) \<and>
      (\<forall>p. keeps p (final (assignment n p))) \<and>
      (\<forall>p. keeps p (final (logicalOr n p))) \<and>
      (\<forall>p e. keeps p (final (logicalOrLoop n p e))) \<and>
      (\<forall>p. keeps p (final (logicalAnd n p))) \<and>
      (\<forall>p e. keeps p (final (logicalAndLoop n p e))) \<and>
      (\<forall>p. keeps p (final (equality n p))) \<and>
      (\<forall>p e. keeps p (final (equalityLoop n p e))) \<and>
      (\<forall>p. keeps p (final (comparison n p))) \<and>
      (\<forall>p e. keeps p (final (comparisonLoop n p e))) \<and>
      (\<forall>p. keeps p (final (term_parser n p))) \<and>
      (\<forall>p e. keeps p (final (termLoop n p e))) \<and>
      (\<forall>p. keeps p (final (factor n p))) \<and>
      (\<forall>p e. keeps p (final (factorLoop n p e))) \<and>
      (\<forall>p. keeps p (final (unary n p))) \<and>
      (\<forall>p. keeps p (final (call n p))) \<and>
      (\<forall>p args. keeps p (final (argumentsLoop n p args))) \<and>
      (\<forall>p. keeps p (final (primary n p))))"

lemma parserKeeps_0: "parserKeeps 0"
  by (simp add: parserKeeps_def)

lemma parserKeeps_Suc:
  assumes a: "parserKeeps n"
  shows "parserKeeps (Suc n)"
proof -
  have h_declaration_parser: "keeps p (final (declaration_parser n p))" for p
    using a by (simp add: parserKeeps_def)
  have h_varDeclaration: "keeps p (final (varDeclaration n p ty))" for p ty
    using a by (simp add: parserKeeps_def)
  have h_functionDeclaration: "keeps p (final (functionDeclaration n p ty))" for p ty
    using a by (simp add: parserKeeps_def)
  have h_statement: "keeps p (final (statement n p))" for p
    using a by (simp add: parserKeeps_def)
  have h_blockStatement: "keeps p (final (blockStatement n p))" for p
    using a by (simp add: parserKeeps_def)
  have h_blockLoop: "keeps p (final (blockLoop n p ss))" for p ss
    using a by (simp add: parserKeeps_def)
  have h_ifStatement: "keeps p (final (ifStatement n p))" for p
    using a by (simp add: parserKeeps_def)
  have h_whileStatement: "keeps p (final (whileStatement n p))" for p
    using a by (simp add: parserKeeps_def)
  have h_forStatement: "keeps p (final (forStatement n p))" for p
    using a by (simp add: parserKeeps_def)
  have h_returnStatement: "keeps p (final (returnStatement n p))" for p
    using a by (simp add: parserKeeps_def)
  have h_expressionStatement: "keeps p (final (expressionStatement n p))" for p
    using a by (simp add: parserKeeps_def)
  have h_expression: "keeps p (final (expression n p))" for p
    using a by (simp add: parserKeeps_def)
  have h_assignment: "keeps p (final (assignment n p))" for p
    using a by (simp add: parserKeeps_def)
  have h_logicalOr: "keeps p (final (logicalOr n p))" for p
    using a by (simp add: parserKeeps_def)
  have h_logicalOrLoop: "keeps p (final (logicalOrLoop n p e))" for p e
    using a by (simp add: parserKeeps_def)
  have h_logicalAnd: "keeps p (final (logicalAnd n p))" for p
    using a by (simp add: parserKeeps_def)
  have h_logicalAndLoop: "keeps p (final (logicalAndLoop n p e))" for p e
    using a by (simp add: parserKeeps_def)
  have h_equality: "keeps p (final (equality n p))" for p
    using a by (simp add: parserKeeps_def)
  have h_equalityLoop: "keeps p (final (equalityLoop n p e))" for p e
    using a by (simp add: parserKeeps_def)
  have h_comparison: "keeps p (final (comparison n p))" for p
    using a by (simp add: parserKeeps_def)
  have h_comparisonLoop: "keeps p (final (comparisonLoop n p e))" for p e
    using a by (simp add: parserKeeps_def)
  have h_term_parser: "keeps p (final (term_parser n p))" for p
    using a by (simp add: parserKeeps_def)
  have h_termLoop: "keeps p (final (termLoop n p e))" for p e
    using a by (simp add: parserKeeps_def)
  have h_factor: "keeps p (final (factor n p))" for p
    using a by (simp add: parserKeeps_def)
  have h_factorLoop: "keeps p (final (factorLoop n p e))" for p e
    using a by (simp add: parserKeeps_def)
  have h_unary: "keeps p (final (unary n p))" for p
    using a by (simp add: parserKeeps_def)
  have h_call: "keeps p (final (call n p))" for p
    using a by (simp add: parserKeeps_def)
  have h_argumentsLoop: "keeps p (final (argumentsLoop n p args))" for p args
    using a by (simp add: parserKeeps_def)
  have h_primary: "keeps p (final (primary n p))" for p
    using a by (simp add: parserKeeps_def)
  have s_declaration_parser: "keeps p (final (declaration_parser (Suc n) p))" for p
    by (rule declaration_parser_keeps) (rule h_varDeclaration h_functionDeclaration h_statement)+
  have s_varDeclaration: "keeps p (final (varDeclaration (Suc n) p ty))" for p ty
    by (rule varDeclaration_keeps) (rule h_expression)+
  have s_functionDeclaration: "keeps p (final (functionDeclaration (Suc n) p ty))" for p ty
    by (rule functionDeclaration_keeps) (rule h_blockStatement)+
  have s_statement: "keeps p (final (statement (Suc n) p))" for p
    by (rule statement_keeps) (rule h_ifStatement h_whileStatement h_forStatement h_returnStatement h_blockStatement h_expressionStatement)+
  have s_blockStatement: "keeps p (final (blockStatement (Suc n) p))" for p
    by (rule blockStatement_keeps) (rule h_blockLoop)+
  have s_blockLoop: "keeps p (final (blockLoop (Suc n) p ss))" for p ss
    by (rule blockLoop_keeps) (rule h_declaration_parser h_blockLoop)+
  have s_ifStatement: "keeps p (final (ifStatement (Suc n) p))" for p
    by (rule ifStatement_keeps) (rule h_expression h_statement)+
  have s_whileStatement: "keeps p (final (whileStatement (Suc n) p))" for p
    by (rule whileStatement_keeps) (rule h_expression h_statement)+
  have s_forStatement: "keeps p (final (forStatement (Suc n) p))" for p
    by (rule forStatement_keeps) (rule h_varDeclaration h_expressionStatement h_expression h_statement)+
  have s_returnStatement: "keeps p (final (returnStatement (Suc n) p))" for p
    by (rule returnStatement_keeps) (rule h_expression)+
  have s_expressionStatement: "keeps p (final (expressionStatement (Suc n) p))" for p
    by (rule expressionStatement_keeps) (rule h_expression)+
  have s_expression: "keeps p (final (expression (Suc n) p))" for p
    by (rule expression_keeps) (rule h_assignment)+
  have s_assignment: "keeps p (final (assignment (Suc n) p))" for p
    by (rule assignment_keeps) (rule h_logicalOr h_assignment)+
  have s_logicalOr: "keeps p (final (logicalOr (Suc n) p))" for p
    by (rule logicalOr_keeps) (rule h_logicalAnd h_logicalOrLoop)+
  have s_logicalOrLoop: "keeps p (final (logicalOrLoop (Suc n) p e))" for p e
    by (rule logicalOrLoop_keeps) (rule h_logicalAnd h_logicalOrLoop)+
  have s_logicalAnd: "keeps p (final (logicalAnd (Suc n) p))" for p
    by (rule logicalAnd_keeps) (rule h_equality h_logicalAndLoop)+
  have s_logicalAndLoop: "keeps p (final (logicalAndLoop (Suc n) p e))" for p e
    by (rule logicalAndLoop_keeps) (rule h_equality h_logicalAndLoop)+
  have s_equality: "keeps p (final (equality (Suc n) p))" for p
    by (rule equality_keeps) (rule h_comparison h_equalityLoop)+
  have s_equalityLoop: "keeps p (final (equalityLoop (Suc n) p e))" for p e
    by (rule equalityLoop_keeps) (rule h_comparison h_equalityLoop)+
  have s_comparison: "keeps p (final (comparison (Suc n) p))" for p
    by (rule comparison_keeps) (rule h_term_parser h_comparisonLoop)+
  have s_comparisonLoop: "keeps p (final (comparisonLoop (Suc n) p e))" for p e
    by (rule comparisonLoop_keeps) (rule h_term_parser h_comparisonLoop)+
  have s_term_parser: "keeps p (final (term_parser (Suc n) p))" for p
    by (rule term_parser_keeps) (rule h_factor h_termLoop)+
  have s_termLoop: "keeps p (final (termLoop (Suc n) p e))" for p e
    by (rule termLoop_keeps) (rule h_factor h_termLoop)+
  have s_factor: "keeps p (final (factor (Suc n) p))" for p
    by (rule factor_keeps) (rule h_unary h_factorLoop)+
  have s_factorLoop: "keeps p (final (factorLoop (Suc n) p e))" for p e
    by (rule factorLoop_keeps) (rule h_unary h_factorLoop)+
  have s_unary: "keeps p (final (unary (Suc n) p))" for p
    by (rule unary_keeps) (rule h_unary h_call)+
  have s_call: "keeps p (final (call (Suc n) p))" for p
    by (rule call_keeps) (rule h_primary h_argumentsLoop)+
  have s_argumentsLoop: "keeps p (final (argumentsLoop (Suc n) p args))" for p args
    by (rule argumentsLoop_keeps) (rule h_expression h_argumentsLoop)+
  have s_primary: "keeps p (final (primary (Suc n) p))" for p
    by (rule primary_keeps) (rule h_expression)+
  show ?thesis
    unfolding parserKeeps_def
    by (intro conjI allI s_declaration_parser s_varDeclaration s_functionDeclaration s_statement s_blockStatement s_blockLoop s_ifStatement s_whileStatement s_forStatement s_returnStatement s_expressionStatement s_expression s_assignment s_logicalOr s_logicalOrLoop s_logicalAnd s_logicalAndLoop s_equality s_equalityLoop s_comparison s_comparisonLoop s_term_parser s_termLoop s_factor s_factorLoop s_unary s_call s_argumentsLoop s_primary)
qed

lemma parserKeeps_all: "parserKeeps n"
  by (induction n) (simp_all add: parserKeeps_0 parserKeeps_Suc)

lemma parseLoop_keeps: "keeps p (final (parseLoop n p ds))"
proof (induction n arbitrary: p ds)
  case 0
  show ?case by simp
next
  case (Suc n)
  have "keeps q (final (declaration_parser n q))" for q
    using parserKeeps_all [of n] by (simp add: parserKeeps_def)
  then show ?case
    by (auto intro!: keeps_intros Suc)
qed

lemma parse_keeps: "keeps p (final (parse n p))"
  unfolding parse_def by (auto intro!: keeps_intros parseLoop_keeps)

subsection \<open>More fuel does not change a result\<close>

text \<open>
  \<open>fueled m\<close>: the run \<open>m\<close> did not stop for lack of fuel. \<open>extends m m'\<close>: if it did
  not, \<open>m'\<close> is the same result.
\<close>

definition fueled :: "'a outcome \<Rightarrow> bool" where
  "fueled m = (\<forall>p. m \<noteq> Abort OutOfFuel p)"

definition extends :: "'a outcome \<Rightarrow> 'a outcome \<Rightarrow> bool" where
  "extends m m' = (fueled m \<longrightarrow> m' = m)"

lemma extends_refl [simp]: "extends m m"
  by (simp add: extends_def)

lemma extends_andThen:
  assumes "extends m m'" and "\<And>x q. extends (f x q) (f' x q)"
  shows "extends (andThen m f) (andThen m' f')"
proof (cases m)
  case (Return x q)
  then have "m' = m" using assms(1) by (simp add: extends_def fueled_def)
  with Return assms(2) [of x q] show ?thesis by (simp add: extends_def)
next
  case (Abort e q)
  show ?thesis
  proof (cases "e = OutOfFuel")
    case True
    with Abort show ?thesis by (simp add: extends_def fueled_def)
  next
    case False
    with Abort have "m' = m" using assms(1) by (simp add: extends_def fueled_def)
    with Abort show ?thesis by (simp add: extends_def)
  qed
qed

lemmas extends_intros = extends_andThen

lemma parameters_step:
  assumes "\<And>p params. extends (parameters n p params) (parameters m p params)"
  shows "extends (parameters (Suc n) p params) (parameters (Suc m) p params)"
  by (auto simp: Let_def intro!: extends_intros assms)

lemma parameters_extends: "extends (parameters n p params) (parameters (Suc n) p params)"
proof (induction n arbitrary: p params)
  case 0
  show ?case by (simp add: extends_def fueled_def)
next
  case (Suc n)
  show ?case by (rule parameters_step) (rule Suc)
qed

lemma declaration_parser_extends:
  assumes "\<And>p ty. extends (varDeclaration n p ty) (varDeclaration m p ty)"
    and "\<And>p ty. extends (functionDeclaration n p ty) (functionDeclaration m p ty)"
    and "\<And>p. extends (statement n p) (statement m p)"
  shows "extends (declaration_parser (Suc n) p) (declaration_parser (Suc m) p)"
  by (auto simp: Let_def intro!: extends_intros assms split: sum.splits bool.splits)

lemma varDeclaration_extends:
  assumes "\<And>p. extends (expression n p) (expression m p)"
  shows "extends (varDeclaration (Suc n) p ty) (varDeclaration (Suc m) p ty)"
  by (auto simp: Let_def intro!: extends_intros assms)

lemma functionDeclaration_extends:
  assumes "\<And>p. extends (blockStatement n p) (blockStatement m p)"
    and "\<And>p params. extends (parameters n p params) (parameters m p params)"
  shows "extends (functionDeclaration (Suc n) p ty) (functionDeclaration (Suc m) p ty)"
  by (auto simp: Let_def intro!: extends_intros assms)

lemma statement_extends:
  assumes "\<And>p. extends (ifStatement n p) (ifStatement m p)"
    and "\<And>p. extends (whileStatement n p) (whileStatement m p)"
    and "\<And>p. extends (forStatement n p) (forStatement m p)"
    and "\<And>p. extends (returnStatement n p) (returnStatement m p)"
    and "\<And>p. extends (blockStatement n p) (blockStatement m p)"
    and "\<And>p. extends (expressionStatement n p) (expressionStatement m p)"
  shows "extends (statement (Suc n) p) (statement (Suc m) p)"
  by (auto simp: Let_def intro!: extends_intros assms)

lemma blockStatement_extends:
  assumes "\<And>p ss. extends (blockLoop n p ss) (blockLoop m p ss)"
  shows "extends (blockStatement (Suc n) p) (blockStatement (Suc m) p)"
  by (auto simp: Let_def intro!: extends_intros assms)

lemma blockLoop_extends:
  assumes "\<And>p. extends (declaration_parser n p) (declaration_parser m p)"
    and "\<And>p ss. extends (blockLoop n p ss) (blockLoop m p ss)"
  shows "extends (blockLoop (Suc n) p ss) (blockLoop (Suc m) p ss)"
  by (auto simp: Let_def intro!: extends_intros assms)

lemma ifStatement_extends:
  assumes "\<And>p. extends (expression n p) (expression m p)"
    and "\<And>p. extends (statement n p) (statement m p)"
  shows "extends (ifStatement (Suc n) p) (ifStatement (Suc m) p)"
  by (auto simp: Let_def intro!: extends_intros assms)

lemma whileStatement_extends:
  assumes "\<And>p. extends (expression n p) (expression m p)"
    and "\<And>p. extends (statement n p) (statement m p)"
  shows "extends (whileStatement (Suc n) p) (whileStatement (Suc m) p)"
  by (auto simp: Let_def intro!: extends_intros assms)

lemma forStatement_extends:
  assumes "\<And>p ty. extends (varDeclaration n p ty) (varDeclaration m p ty)"
    and "\<And>p. extends (expressionStatement n p) (expressionStatement m p)"
    and "\<And>p. extends (expression n p) (expression m p)"
    and "\<And>p. extends (statement n p) (statement m p)"
  shows "extends (forStatement (Suc n) p) (forStatement (Suc m) p)"
  by (auto simp: Let_def intro!: extends_intros assms)

lemma returnStatement_extends:
  assumes "\<And>p. extends (expression n p) (expression m p)"
  shows "extends (returnStatement (Suc n) p) (returnStatement (Suc m) p)"
  by (auto simp: Let_def intro!: extends_intros assms)

lemma expressionStatement_extends:
  assumes "\<And>p. extends (expression n p) (expression m p)"
  shows "extends (expressionStatement (Suc n) p) (expressionStatement (Suc m) p)"
  by (auto simp: Let_def intro!: extends_intros assms)

lemma expression_extends:
  assumes "\<And>p. extends (assignment n p) (assignment m p)"
  shows "extends (expression (Suc n) p) (expression (Suc m) p)"
  by (auto simp: Let_def intro!: extends_intros assms)

lemma assignment_extends:
  assumes "\<And>p. extends (logicalOr n p) (logicalOr m p)"
    and "\<And>p. extends (assignment n p) (assignment m p)"
  shows "extends (assignment (Suc n) p) (assignment (Suc m) p)"
  by (auto simp: Let_def intro!: extends_intros assms split: option.splits AstNode.splits)

lemma logicalOr_extends:
  assumes "\<And>p. extends (logicalAnd n p) (logicalAnd m p)"
    and "\<And>p e. extends (logicalOrLoop n p e) (logicalOrLoop m p e)"
  shows "extends (logicalOr (Suc n) p) (logicalOr (Suc m) p)"
  by (auto simp: Let_def intro!: extends_intros assms)

lemma logicalOrLoop_extends:
  assumes "\<And>p. extends (logicalAnd n p) (logicalAnd m p)"
    and "\<And>p e. extends (logicalOrLoop n p e) (logicalOrLoop m p e)"
  shows "extends (logicalOrLoop (Suc n) p e) (logicalOrLoop (Suc m) p e)"
  by (auto simp: Let_def intro!: extends_intros assms)

lemma logicalAnd_extends:
  assumes "\<And>p. extends (equality n p) (equality m p)"
    and "\<And>p e. extends (logicalAndLoop n p e) (logicalAndLoop m p e)"
  shows "extends (logicalAnd (Suc n) p) (logicalAnd (Suc m) p)"
  by (auto simp: Let_def intro!: extends_intros assms)

lemma logicalAndLoop_extends:
  assumes "\<And>p. extends (equality n p) (equality m p)"
    and "\<And>p e. extends (logicalAndLoop n p e) (logicalAndLoop m p e)"
  shows "extends (logicalAndLoop (Suc n) p e) (logicalAndLoop (Suc m) p e)"
  by (auto simp: Let_def intro!: extends_intros assms)

lemma equality_extends:
  assumes "\<And>p. extends (comparison n p) (comparison m p)"
    and "\<And>p e. extends (equalityLoop n p e) (equalityLoop m p e)"
  shows "extends (equality (Suc n) p) (equality (Suc m) p)"
  by (auto simp: Let_def intro!: extends_intros assms)

lemma equalityLoop_extends:
  assumes "\<And>p. extends (comparison n p) (comparison m p)"
    and "\<And>p e. extends (equalityLoop n p e) (equalityLoop m p e)"
  shows "extends (equalityLoop (Suc n) p e) (equalityLoop (Suc m) p e)"
  by (auto simp: Let_def intro!: extends_intros assms)

lemma comparison_extends:
  assumes "\<And>p. extends (term_parser n p) (term_parser m p)"
    and "\<And>p e. extends (comparisonLoop n p e) (comparisonLoop m p e)"
  shows "extends (comparison (Suc n) p) (comparison (Suc m) p)"
  by (auto simp: Let_def intro!: extends_intros assms)

lemma comparisonLoop_extends:
  assumes "\<And>p. extends (term_parser n p) (term_parser m p)"
    and "\<And>p e. extends (comparisonLoop n p e) (comparisonLoop m p e)"
  shows "extends (comparisonLoop (Suc n) p e) (comparisonLoop (Suc m) p e)"
  by (auto simp: Let_def intro!: extends_intros assms)

lemma term_parser_extends:
  assumes "\<And>p. extends (factor n p) (factor m p)"
    and "\<And>p e. extends (termLoop n p e) (termLoop m p e)"
  shows "extends (term_parser (Suc n) p) (term_parser (Suc m) p)"
  by (auto simp: Let_def intro!: extends_intros assms)

lemma termLoop_extends:
  assumes "\<And>p. extends (factor n p) (factor m p)"
    and "\<And>p e. extends (termLoop n p e) (termLoop m p e)"
  shows "extends (termLoop (Suc n) p e) (termLoop (Suc m) p e)"
  by (auto simp: Let_def intro!: extends_intros assms)

lemma factor_extends:
  assumes "\<And>p. extends (unary n p) (unary m p)"
    and "\<And>p e. extends (factorLoop n p e) (factorLoop m p e)"
  shows "extends (factor (Suc n) p) (factor (Suc m) p)"
  by (auto simp: Let_def intro!: extends_intros assms)

lemma factorLoop_extends:
  assumes "\<And>p. extends (unary n p) (unary m p)"
    and "\<And>p e. extends (factorLoop n p e) (factorLoop m p e)"
  shows "extends (factorLoop (Suc n) p e) (factorLoop (Suc m) p e)"
  by (auto simp: Let_def intro!: extends_intros assms)

lemma unary_extends:
  assumes "\<And>p. extends (unary n p) (unary m p)"
    and "\<And>p. extends (call n p) (call m p)"
  shows "extends (unary (Suc n) p) (unary (Suc m) p)"
  by (auto simp: Let_def intro!: extends_intros assms)

lemma call_extends:
  assumes "\<And>p. extends (primary n p) (primary m p)"
    and "\<And>p args. extends (argumentsLoop n p args) (argumentsLoop m p args)"
  shows "extends (call (Suc n) p) (call (Suc m) p)"
  by (auto simp: Let_def intro!: extends_intros assms split: option.splits AstNode.splits)

lemma argumentsLoop_extends:
  assumes "\<And>p. extends (expression n p) (expression m p)"
    and "\<And>p args. extends (argumentsLoop n p args) (argumentsLoop m p args)"
  shows "extends (argumentsLoop (Suc n) p args) (argumentsLoop (Suc m) p args)"
  by (auto simp: Let_def intro!: extends_intros assms)

lemma primary_extends:
  assumes "\<And>p. extends (expression n p) (expression m p)"
  shows "extends (primary (Suc n) p) (primary (Suc m) p)"
  by (auto simp: Let_def intro!: extends_intros assms)

definition parserExtends :: "nat \<Rightarrow> bool" where
  "parserExtends n =
     ((\<forall>p. extends (declaration_parser n p) (declaration_parser (Suc n) p)) \<and>
      (\<forall>p ty. extends (varDeclaration n p ty) (varDeclaration (Suc n) p ty)) \<and>
      (\<forall>p ty. extends (functionDeclaration n p ty) (functionDeclaration (Suc n) p ty)) \<and>
      (\<forall>p. extends (statement n p) (statement (Suc n) p)) \<and>
      (\<forall>p. extends (blockStatement n p) (blockStatement (Suc n) p)) \<and>
      (\<forall>p ss. extends (blockLoop n p ss) (blockLoop (Suc n) p ss)) \<and>
      (\<forall>p. extends (ifStatement n p) (ifStatement (Suc n) p)) \<and>
      (\<forall>p. extends (whileStatement n p) (whileStatement (Suc n) p)) \<and>
      (\<forall>p. extends (forStatement n p) (forStatement (Suc n) p)) \<and>
      (\<forall>p. extends (returnStatement n p) (returnStatement (Suc n) p)) \<and>
      (\<forall>p. extends (expressionStatement n p) (expressionStatement (Suc n) p)) \<and>
      (\<forall>p. extends (expression n p) (expression (Suc n) p)) \<and>
      (\<forall>p. extends (assignment n p) (assignment (Suc n) p)) \<and>
      (\<forall>p. extends (logicalOr n p) (logicalOr (Suc n) p)) \<and>
      (\<forall>p e. extends (logicalOrLoop n p e) (logicalOrLoop (Suc n) p e)) \<and>
      (\<forall>p. extends (logicalAnd n p) (logicalAnd (Suc n) p)) \<and>
      (\<forall>p e. extends (logicalAndLoop n p e) (logicalAndLoop (Suc n) p e)) \<and>
      (\<forall>p. extends (equality n p) (equality (Suc n) p)) \<and>
      (\<forall>p e. extends (equalityLoop n p e) (equalityLoop (Suc n) p e)) \<and>
      (\<forall>p. extends (comparison n p) (comparison (Suc n) p)) \<and>
      (\<forall>p e. extends (comparisonLoop n p e) (comparisonLoop (Suc n) p e)) \<and>
      (\<forall>p. extends (term_parser n p) (term_parser (Suc n) p)) \<and>
      (\<forall>p e. extends (termLoop n p e) (termLoop (Suc n) p e)) \<and>
      (\<forall>p. extends (factor n p) (factor (Suc n) p)) \<and>
      (\<forall>p e. extends (factorLoop n p e) (factorLoop (Suc n) p e)) \<and>
      (\<forall>p. extends (unary n p) (unary (Suc n) p)) \<and>
      (\<forall>p. extends (call n p) (call (Suc n) p)) \<and>
      (\<forall>p args. extends (argumentsLoop n p args) (argumentsLoop (Suc n) p args)) \<and>
      (\<forall>p. extends (primary n p) (primary (Suc n) p)))"

lemma parserExtends_0: "parserExtends 0"
  by (simp add: parserExtends_def extends_def fueled_def)

lemma parserExtends_Suc:
  assumes a: "parserExtends n"
  shows "parserExtends (Suc n)"
proof -
  have h_declaration_parser: "extends (declaration_parser n p) (declaration_parser (Suc n) p)" for p
    using a by (simp add: parserExtends_def)
  have h_varDeclaration: "extends (varDeclaration n p ty) (varDeclaration (Suc n) p ty)" for p ty
    using a by (simp add: parserExtends_def)
  have h_functionDeclaration: "extends (functionDeclaration n p ty) (functionDeclaration (Suc n) p ty)" for p ty
    using a by (simp add: parserExtends_def)
  have h_statement: "extends (statement n p) (statement (Suc n) p)" for p
    using a by (simp add: parserExtends_def)
  have h_blockStatement: "extends (blockStatement n p) (blockStatement (Suc n) p)" for p
    using a by (simp add: parserExtends_def)
  have h_blockLoop: "extends (blockLoop n p ss) (blockLoop (Suc n) p ss)" for p ss
    using a by (simp add: parserExtends_def)
  have h_ifStatement: "extends (ifStatement n p) (ifStatement (Suc n) p)" for p
    using a by (simp add: parserExtends_def)
  have h_whileStatement: "extends (whileStatement n p) (whileStatement (Suc n) p)" for p
    using a by (simp add: parserExtends_def)
  have h_forStatement: "extends (forStatement n p) (forStatement (Suc n) p)" for p
    using a by (simp add: parserExtends_def)
  have h_returnStatement: "extends (returnStatement n p) (returnStatement (Suc n) p)" for p
    using a by (simp add: parserExtends_def)
  have h_expressionStatement: "extends (expressionStatement n p) (expressionStatement (Suc n) p)" for p
    using a by (simp add: parserExtends_def)
  have h_expression: "extends (expression n p) (expression (Suc n) p)" for p
    using a by (simp add: parserExtends_def)
  have h_assignment: "extends (assignment n p) (assignment (Suc n) p)" for p
    using a by (simp add: parserExtends_def)
  have h_logicalOr: "extends (logicalOr n p) (logicalOr (Suc n) p)" for p
    using a by (simp add: parserExtends_def)
  have h_logicalOrLoop: "extends (logicalOrLoop n p e) (logicalOrLoop (Suc n) p e)" for p e
    using a by (simp add: parserExtends_def)
  have h_logicalAnd: "extends (logicalAnd n p) (logicalAnd (Suc n) p)" for p
    using a by (simp add: parserExtends_def)
  have h_logicalAndLoop: "extends (logicalAndLoop n p e) (logicalAndLoop (Suc n) p e)" for p e
    using a by (simp add: parserExtends_def)
  have h_equality: "extends (equality n p) (equality (Suc n) p)" for p
    using a by (simp add: parserExtends_def)
  have h_equalityLoop: "extends (equalityLoop n p e) (equalityLoop (Suc n) p e)" for p e
    using a by (simp add: parserExtends_def)
  have h_comparison: "extends (comparison n p) (comparison (Suc n) p)" for p
    using a by (simp add: parserExtends_def)
  have h_comparisonLoop: "extends (comparisonLoop n p e) (comparisonLoop (Suc n) p e)" for p e
    using a by (simp add: parserExtends_def)
  have h_term_parser: "extends (term_parser n p) (term_parser (Suc n) p)" for p
    using a by (simp add: parserExtends_def)
  have h_termLoop: "extends (termLoop n p e) (termLoop (Suc n) p e)" for p e
    using a by (simp add: parserExtends_def)
  have h_factor: "extends (factor n p) (factor (Suc n) p)" for p
    using a by (simp add: parserExtends_def)
  have h_factorLoop: "extends (factorLoop n p e) (factorLoop (Suc n) p e)" for p e
    using a by (simp add: parserExtends_def)
  have h_unary: "extends (unary n p) (unary (Suc n) p)" for p
    using a by (simp add: parserExtends_def)
  have h_call: "extends (call n p) (call (Suc n) p)" for p
    using a by (simp add: parserExtends_def)
  have h_argumentsLoop: "extends (argumentsLoop n p args) (argumentsLoop (Suc n) p args)" for p args
    using a by (simp add: parserExtends_def)
  have h_primary: "extends (primary n p) (primary (Suc n) p)" for p
    using a by (simp add: parserExtends_def)
  have h_parameters: "extends (parameters n p params) (parameters (Suc n) p params)" for p params
    by (rule parameters_extends)
  have s_declaration_parser: "extends (declaration_parser (Suc n) p) (declaration_parser (Suc (Suc n)) p)" for p
    by (rule declaration_parser_extends) (rule h_varDeclaration h_functionDeclaration h_statement)+
  have s_varDeclaration: "extends (varDeclaration (Suc n) p ty) (varDeclaration (Suc (Suc n)) p ty)" for p ty
    by (rule varDeclaration_extends) (rule h_expression)+
  have s_functionDeclaration: "extends (functionDeclaration (Suc n) p ty) (functionDeclaration (Suc (Suc n)) p ty)" for p ty
    by (rule functionDeclaration_extends) (rule h_blockStatement h_parameters)+
  have s_statement: "extends (statement (Suc n) p) (statement (Suc (Suc n)) p)" for p
    by (rule statement_extends) (rule h_ifStatement h_whileStatement h_forStatement h_returnStatement h_blockStatement h_expressionStatement)+
  have s_blockStatement: "extends (blockStatement (Suc n) p) (blockStatement (Suc (Suc n)) p)" for p
    by (rule blockStatement_extends) (rule h_blockLoop)+
  have s_blockLoop: "extends (blockLoop (Suc n) p ss) (blockLoop (Suc (Suc n)) p ss)" for p ss
    by (rule blockLoop_extends) (rule h_declaration_parser h_blockLoop)+
  have s_ifStatement: "extends (ifStatement (Suc n) p) (ifStatement (Suc (Suc n)) p)" for p
    by (rule ifStatement_extends) (rule h_expression h_statement)+
  have s_whileStatement: "extends (whileStatement (Suc n) p) (whileStatement (Suc (Suc n)) p)" for p
    by (rule whileStatement_extends) (rule h_expression h_statement)+
  have s_forStatement: "extends (forStatement (Suc n) p) (forStatement (Suc (Suc n)) p)" for p
    by (rule forStatement_extends) (rule h_varDeclaration h_expressionStatement h_expression h_statement)+
  have s_returnStatement: "extends (returnStatement (Suc n) p) (returnStatement (Suc (Suc n)) p)" for p
    by (rule returnStatement_extends) (rule h_expression)+
  have s_expressionStatement: "extends (expressionStatement (Suc n) p) (expressionStatement (Suc (Suc n)) p)" for p
    by (rule expressionStatement_extends) (rule h_expression)+
  have s_expression: "extends (expression (Suc n) p) (expression (Suc (Suc n)) p)" for p
    by (rule expression_extends) (rule h_assignment)+
  have s_assignment: "extends (assignment (Suc n) p) (assignment (Suc (Suc n)) p)" for p
    by (rule assignment_extends) (rule h_logicalOr h_assignment)+
  have s_logicalOr: "extends (logicalOr (Suc n) p) (logicalOr (Suc (Suc n)) p)" for p
    by (rule logicalOr_extends) (rule h_logicalAnd h_logicalOrLoop)+
  have s_logicalOrLoop: "extends (logicalOrLoop (Suc n) p e) (logicalOrLoop (Suc (Suc n)) p e)" for p e
    by (rule logicalOrLoop_extends) (rule h_logicalAnd h_logicalOrLoop)+
  have s_logicalAnd: "extends (logicalAnd (Suc n) p) (logicalAnd (Suc (Suc n)) p)" for p
    by (rule logicalAnd_extends) (rule h_equality h_logicalAndLoop)+
  have s_logicalAndLoop: "extends (logicalAndLoop (Suc n) p e) (logicalAndLoop (Suc (Suc n)) p e)" for p e
    by (rule logicalAndLoop_extends) (rule h_equality h_logicalAndLoop)+
  have s_equality: "extends (equality (Suc n) p) (equality (Suc (Suc n)) p)" for p
    by (rule equality_extends) (rule h_comparison h_equalityLoop)+
  have s_equalityLoop: "extends (equalityLoop (Suc n) p e) (equalityLoop (Suc (Suc n)) p e)" for p e
    by (rule equalityLoop_extends) (rule h_comparison h_equalityLoop)+
  have s_comparison: "extends (comparison (Suc n) p) (comparison (Suc (Suc n)) p)" for p
    by (rule comparison_extends) (rule h_term_parser h_comparisonLoop)+
  have s_comparisonLoop: "extends (comparisonLoop (Suc n) p e) (comparisonLoop (Suc (Suc n)) p e)" for p e
    by (rule comparisonLoop_extends) (rule h_term_parser h_comparisonLoop)+
  have s_term_parser: "extends (term_parser (Suc n) p) (term_parser (Suc (Suc n)) p)" for p
    by (rule term_parser_extends) (rule h_factor h_termLoop)+
  have s_termLoop: "extends (termLoop (Suc n) p e) (termLoop (Suc (Suc n)) p e)" for p e
    by (rule termLoop_extends) (rule h_factor h_termLoop)+
  have s_factor: "extends (factor (Suc n) p) (factor (Suc (Suc n)) p)" for p
    by (rule factor_extends) (rule h_unary h_factorLoop)+
  have s_factorLoop: "extends (factorLoop (Suc n) p e) (factorLoop (Suc (Suc n)) p e)" for p e
    by (rule factorLoop_extends) (rule h_unary h_factorLoop)+
  have s_unary: "extends (unary (Suc n) p) (unary (Suc (Suc n)) p)" for p
    by (rule unary_extends) (rule h_unary h_call)+
  have s_call: "extends (call (Suc n) p) (call (Suc (Suc n)) p)" for p
    by (rule call_extends) (rule h_primary h_argumentsLoop)+
  have s_argumentsLoop: "extends (argumentsLoop (Suc n) p args) (argumentsLoop (Suc (Suc n)) p args)" for p args
    by (rule argumentsLoop_extends) (rule h_expression h_argumentsLoop)+
  have s_primary: "extends (primary (Suc n) p) (primary (Suc (Suc n)) p)" for p
    by (rule primary_extends) (rule h_expression)+
  show ?thesis
    unfolding parserExtends_def
    by (intro conjI allI s_declaration_parser s_varDeclaration s_functionDeclaration s_statement s_blockStatement s_blockLoop s_ifStatement s_whileStatement s_forStatement s_returnStatement s_expressionStatement s_expression s_assignment s_logicalOr s_logicalOrLoop s_logicalAnd s_logicalAndLoop s_equality s_equalityLoop s_comparison s_comparisonLoop s_term_parser s_termLoop s_factor s_factorLoop s_unary s_call s_argumentsLoop s_primary)
qed

lemma parserExtends_all: "parserExtends n"
  by (induction n) (simp_all add: parserExtends_0 parserExtends_Suc)

lemma parseLoop_step:
  assumes "\<And>p. extends (declaration_parser n p) (declaration_parser m p)"
    and "\<And>p ds. extends (parseLoop n p ds) (parseLoop m p ds)"
  shows "extends (parseLoop (Suc n) p ds) (parseLoop (Suc m) p ds)"
  by (auto intro!: extends_intros assms)

lemma parseLoop_extends: "extends (parseLoop n p ds) (parseLoop (Suc n) p ds)"
proof (induction n arbitrary: p ds)
  case 0
  show ?case by (simp add: extends_def fueled_def)
next
  case (Suc n)
  have "extends (declaration_parser n q) (declaration_parser (Suc n) q)" for q
    using parserExtends_all [of n] by (simp add: parserExtends_def)
  then show ?case
    by (intro parseLoop_step Suc)
qed

lemma parse_extends: "extends (parse n p) (parse (Suc n) p)"
  unfolding parse_def by (intro extends_andThen parseLoop_extends extends_refl)

lemma fuel_add:
  assumes "\<And>n. extends (f n) (f (Suc n))" and "fueled (f n)"
  shows "f (n + k) = f n"
proof (induction k)
  case 0
  show ?case by simp
next
  case (Suc k)
  have "extends (f (n + k)) (f (Suc (n + k)))" by (rule assms(1))
  with Suc assms(2) show ?case by (simp add: extends_def)
qed

lemma expression_fuel: "extends (expression n p) (expression (Suc n) p)"
  using parserExtends_all [of n] by (simp add: parserExtends_def)

lemma declaration_parser_fuel: "extends (declaration_parser n p) (declaration_parser (Suc n) p)"
  using parserExtends_all [of n] by (simp add: parserExtends_def)

lemma fueled_Return [simp]: "fueled (Return x p)"
  by (simp add: fueled_def)

lemma fueled_Abort [simp]: "fueled (Abort e p) = (e \<noteq> OutOfFuel)"
  by (auto simp: fueled_def)

lemma returned_fueled: "returned m = Inr x \<Longrightarrow> fueled m"
  by (cases m) (simp_all add: returned_def)

lemma returned_fuel:
  assumes "returned (expression n p) = Inr x"
  shows "returned (expression (n + k) p) = Inr x"
  using fuel_add [of "\<lambda>n. expression n p" n k] expression_fuel returned_fueled [OF assms] assms
  by simp

section \<open>Symbol table (include/semantic.h, src/semantic/symbol_table.c)\<close>

datatype SymbolType = SYMBOL_VARIABLE | SYMBOL_FUNCTION

text \<open>
  \<^verbatim>\<open>struct Symbol\<close>. The field \<^verbatim>\<open>type\<close> is \<open>symbolType\<close> and the field \<^verbatim>\<open>scopeDepth\<close> is
  \<open>symbolDepth\<close> (the token and the table have fields of these names); the link
  \<^verbatim>\<open>next\<close> is the order of the list \<open>first\<close> of the table. \<open>name\<close> is the C string that
  \<^verbatim>\<open>createSymbol\<close> copies with \<^verbatim>\<open>strcpy\<close>.
\<close>

record Symbol =
  name :: string
  symbolType :: SymbolType
  dataType :: TokenType
  paramCount :: int
  paramTypes :: "TokenType list"
  symbolDepth :: int

record SymbolTable =
  first :: "Symbol list"
  scopeDepth :: int

definition initSymbolTable :: SymbolTable where
  "initSymbolTable = \<lparr>first = [], scopeDepth = 0\<rparr>"

definition createSymbol :: "string \<Rightarrow> SymbolType \<Rightarrow> int \<Rightarrow> Symbol" where
  "createSymbol nm ty depth =
     \<lparr>name = nm, symbolType = ty, dataType = TOKEN_VOID, paramCount = 0,
      paramTypes = [], symbolDepth = depth\<rparr>"

text \<open>
  \<^verbatim>\<open>defineVariable\<close> and \<^verbatim>\<open>defineFunction\<close> return the new symbol or \<^verbatim>\<open>NULL\<close>, the table,
  and what they printed on the standard error stream.
\<close>

definition defineVariable ::
  "SymbolTable \<Rightarrow> string \<Rightarrow> TokenType \<Rightarrow> int \<Rightarrow> int
     \<Rightarrow> Symbol option \<times> SymbolTable \<times> diagnostic list" where
  "defineVariable t nm dt ln col =
     (if list_ex (\<lambda>current. symbolDepth current = scopeDepth t \<and> name current = nm) (first t)
      then (None, t,
            [(ln, col, ''Variable '' @ [CHR 0x27] @ nm @ [CHR 0x27]
                         @ '' already defined in this scope.'')])
      else (let symbol = (createSymbol nm SYMBOL_VARIABLE (scopeDepth t))\<lparr>dataType := dt\<rparr>
            in (Some symbol, t\<lparr>first := symbol # first t\<rparr>, [])))"

definition defineFunction ::
  "SymbolTable \<Rightarrow> string \<Rightarrow> TokenType \<Rightarrow> int \<Rightarrow> TokenType list \<Rightarrow> int \<Rightarrow> int
     \<Rightarrow> Symbol option \<times> SymbolTable \<times> diagnostic list" where
  "defineFunction t nm returnType pc pts ln col =
     (if list_ex (\<lambda>current. symbolDepth current = 0 \<and> name current = nm) (first t)
      then (None, t,
            [(ln, col, ''Function '' @ [CHR 0x27] @ nm @ [CHR 0x27] @ '' already defined.'')])
      else (let symbol = (createSymbol nm SYMBOL_FUNCTION 0)
                           \<lparr>dataType := returnType, paramCount := pc,
                            paramTypes := (if pc > 0 then take (nat pc) pts else [])\<rparr>
            in (Some symbol, t\<lparr>first := symbol # first t\<rparr>, [])))"

definition resolveSymbol :: "SymbolTable \<Rightarrow> string \<Rightarrow> Symbol option" where
  "resolveSymbol t nm = find (\<lambda>current. name current = nm) (first t)"

definition beginScope :: "SymbolTable \<Rightarrow> SymbolTable" where
  "beginScope t = t\<lparr>scopeDepth := scopeDepth t + 1\<rparr>"

text \<open>
  \<^verbatim>\<open>endScope\<close> unlinks every symbol whose depth is the depth of the table and keeps the
  others in their order.
\<close>

definition endScope :: "SymbolTable \<Rightarrow> SymbolTable" where
  "endScope t =
     t\<lparr>first := filter (\<lambda>current. symbolDepth current \<noteq> scopeDepth t) (first t),
       scopeDepth := scopeDepth t - 1\<rparr>"

section \<open>Semantic analyzer (src/semantic/semantic.c)\<close>

text \<open>
  The state the analyzer works on: the \<^verbatim>\<open>SemanticContext\<close> (its only field is
  \<^verbatim>\<open>errorCount\<close>), the symbol table, the file-level variable
  \<^verbatim>\<open>currentFunctionReturnType\<close>, and the lines written to the standard error stream.
\<close>

record Analyzer =
  errorCount :: int
  table :: SymbolTable
  currentFunctionReturnType :: TokenType
  stderr_s :: "diagnostic list"

definition initSemanticAnalyzer :: Analyzer where
  "initSemanticAnalyzer =
     \<lparr>errorCount = 0, table = initSymbolTable,
      currentFunctionReturnType = TOKEN_VOID, stderr_s = []\<rparr>"

definition semanticError :: "Analyzer \<Rightarrow> int \<Rightarrow> int \<Rightarrow> string \<Rightarrow> Analyzer" where
  "semanticError s ln col message =
     s\<lparr>stderr_s := stderr_s s @ [(ln, col, message)], errorCount := errorCount s + 1\<rparr>"

text \<open>\<^verbatim>\<open>strchr(node->value.start, '.')\<close> searches the C string at \<^verbatim>\<open>start\<close>.\<close>

definition analyzeLiteral :: "Analyzer \<Rightarrow> int \<Rightarrow> int \<Rightarrow> Token \<Rightarrow> TokenType \<times> Analyzer" where
  "analyzeLiteral s l c v =
     (if type v = TOKEN_NUMBER
      then (if CHR ''.'' \<in> set (start v) then (TOKEN_FLOAT, s) else (TOKEN_INT, s))
      else if type v = TOKEN_STRING then (TOKEN_CHAR, s)
      else (TOKEN_ERROR, semanticError s l c ''Unknown literal type.''))"

definition analyzeVariable :: "Analyzer \<Rightarrow> int \<Rightarrow> int \<Rightarrow> Token \<Rightarrow> TokenType \<times> Analyzer" where
  "analyzeVariable s l c nm =
     (case resolveSymbol (table s) (start nm) of
        None \<Rightarrow> (TOKEN_ERROR, semanticError s l c ''Undefined variable.'')
      | Some symbol \<Rightarrow>
          if symbolType symbol \<noteq> SYMBOL_VARIABLE
          then (TOKEN_ERROR, semanticError s l c ''Expected a variable name.'')
          else (dataType symbol, s))"

text \<open>The loop of \<^verbatim>\<open>analyzeFunctionDecl\<close> that defines the parameters.\<close>

fun defineParameters :: "Analyzer \<Rightarrow> (Token \<times> TokenType) list \<Rightarrow> Analyzer" where
  "defineParameters s [] = s"
| "defineParameters s ((nm, ty) # ps) =
     (let (symbol, t, printed) = defineVariable (table s) (start nm) ty (line nm) (column nm)
      in defineParameters (s\<lparr>table := t, stderr_s := stderr_s s @ printed\<rparr>) ps)"

function analyzeDeclaration :: "Analyzer \<Rightarrow> AstNode \<Rightarrow> bool \<times> Analyzer"
  and analyzeVarDecl ::
    "Analyzer \<Rightarrow> int \<Rightarrow> int \<Rightarrow> Token \<Rightarrow> TokenType \<Rightarrow> AstNode option \<Rightarrow> bool \<times> Analyzer"
  and analyzeFunctionDecl ::
    "Analyzer \<Rightarrow> int \<Rightarrow> int \<Rightarrow> Token \<Rightarrow> TokenType \<Rightarrow> (Token \<times> TokenType) list
       \<Rightarrow> AstNode list \<Rightarrow> bool \<times> Analyzer"
  and analyzeStatement :: "Analyzer \<Rightarrow> AstNode \<Rightarrow> bool \<times> Analyzer"
  and analyzeBlock :: "Analyzer \<Rightarrow> AstNode list \<Rightarrow> bool \<times> Analyzer"
  and analyzeDeclarations :: "Analyzer \<Rightarrow> AstNode list \<Rightarrow> bool \<times> Analyzer"
  and analyzeIfStatement ::
    "Analyzer \<Rightarrow> int \<Rightarrow> int \<Rightarrow> AstNode \<Rightarrow> AstNode \<Rightarrow> AstNode option \<Rightarrow> bool \<times> Analyzer"
  and analyzeWhileStatement ::
    "Analyzer \<Rightarrow> int \<Rightarrow> int \<Rightarrow> AstNode \<Rightarrow> AstNode \<Rightarrow> bool \<times> Analyzer"
  and analyzeForStatement ::
    "Analyzer \<Rightarrow> int \<Rightarrow> int \<Rightarrow> AstNode option \<Rightarrow> AstNode option \<Rightarrow> AstNode option
       \<Rightarrow> AstNode \<Rightarrow> bool \<times> Analyzer"
  and analyzeReturnStatement ::
    "Analyzer \<Rightarrow> int \<Rightarrow> int \<Rightarrow> AstNode option \<Rightarrow> bool \<times> Analyzer"
  and analyzeExpressionStatement ::
    "Analyzer \<Rightarrow> int \<Rightarrow> int \<Rightarrow> AstNode \<Rightarrow> bool \<times> Analyzer"
  and analyzeExpression :: "Analyzer \<Rightarrow> AstNode option \<Rightarrow> TokenType \<times> Analyzer"
  and analyzeBinary ::
    "Analyzer \<Rightarrow> int \<Rightarrow> int \<Rightarrow> AstNode \<Rightarrow> TokenType \<Rightarrow> AstNode option
       \<Rightarrow> TokenType \<times> Analyzer"
  and analyzeUnary ::
    "Analyzer \<Rightarrow> int \<Rightarrow> int \<Rightarrow> TokenType \<Rightarrow> AstNode \<Rightarrow> TokenType \<times> Analyzer"
  and analyzeAssignment ::
    "Analyzer \<Rightarrow> int \<Rightarrow> int \<Rightarrow> Token \<Rightarrow> AstNode option \<Rightarrow> TokenType \<times> Analyzer"
  and analyzeCall ::
    "Analyzer \<Rightarrow> int \<Rightarrow> int \<Rightarrow> Token \<Rightarrow> AstNode option list \<Rightarrow> TokenType \<times> Analyzer"
  and analyzeArguments ::
    "Analyzer \<Rightarrow> Symbol \<Rightarrow> AstNode option list \<Rightarrow> nat \<Rightarrow> Analyzer"
where
  "analyzeDeclaration s node =
     (case node of
        AstVarDecl l c nm ty i \<Rightarrow> analyzeVarDecl s l c nm ty i
      | AstFunctionDecl l c nm ty ps body \<Rightarrow> analyzeFunctionDecl s l c nm ty ps body
      | _ \<Rightarrow> analyzeStatement s node)"
| "analyzeVarDecl s l c nm varType initializer =
     (let s1 = (case initializer of
                  None \<Rightarrow> s
                | Some i \<Rightarrow>
                    (let (initType, s') = analyzeExpression s initializer
                     in if initType \<noteq> varType \<and> initType \<noteq> TOKEN_ERROR
                        then semanticError s' l c ''Type mismatch in variable initialization.''
                        else s'));
          (symbol, t, printed) = defineVariable (table s1) (start nm) varType l c
      in (symbol \<noteq> None, s1\<lparr>table := t, stderr_s := stderr_s s1 @ printed\<rparr>))"
| "analyzeFunctionDecl s l c nm returnType params body =
     (let previousReturnType = currentFunctionReturnType s;
          s1 = s\<lparr>currentFunctionReturnType := returnType\<rparr>;
          s2 = s1\<lparr>table := beginScope (table s1)\<rparr>;
          s3 = defineParameters s2 params;
          (result, s4) = analyzeBlock s3 body;
          s5 = s4\<lparr>table := endScope (table s4)\<rparr>
      in (result, s5\<lparr>currentFunctionReturnType := previousReturnType\<rparr>))"
| "analyzeStatement s node =
     (case node of
        AstBlock l c ss \<Rightarrow> analyzeBlock s ss
      | AstIf l c a b e \<Rightarrow> analyzeIfStatement s l c a b e
      | AstWhile l c a b \<Rightarrow> analyzeWhileStatement s l c a b
      | AstFor l c i a u b \<Rightarrow> analyzeForStatement s l c i a u b
      | AstReturn l c v \<Rightarrow> analyzeReturnStatement s l c v
      | AstExpressionStmt l c e \<Rightarrow> analyzeExpressionStatement s l c e
      | _ \<Rightarrow> (False, semanticError s (nodeLine node) (nodeColumn node)
                        ''Unknown statement type.''))"
| "analyzeBlock s statements =
     (let s1 = s\<lparr>table := beginScope (table s)\<rparr>;
          (ok, s2) = analyzeDeclarations s1 statements
      in (ok, s2\<lparr>table := endScope (table s2)\<rparr>))"
| "analyzeDeclarations s nodes =
     (case nodes of
        [] \<Rightarrow> (True, s)
      | node # rest \<Rightarrow>
          (let (ok, s1) = analyzeDeclaration s node
           in if \<not> ok then (False, s1) else analyzeDeclarations s1 rest))"
| "analyzeIfStatement s l c condition thenBranch elseBranch =
     (let (condType, s1) = analyzeExpression s (Some condition);
          s2 = (if condType \<noteq> TOKEN_ERROR \<and> condType \<noteq> TOKEN_INT
                then semanticError s1 (nodeLine condition) (nodeColumn condition)
                       ''Condition must be a boolean expression.''
                else s1);
          (thenResult, s3) = analyzeStatement s2 thenBranch;
          (elseResult, s4) = (case elseBranch of
                                None \<Rightarrow> (True, s3)
                              | Some e \<Rightarrow> analyzeStatement s3 e)
      in (thenResult \<and> elseResult, s4))"
| "analyzeWhileStatement s l c condition body =
     (let (condType, s1) = analyzeExpression s (Some condition);
          s2 = (if condType \<noteq> TOKEN_ERROR \<and> condType \<noteq> TOKEN_INT
                then semanticError s1 (nodeLine condition) (nodeColumn condition)
                       ''Condition must be a boolean expression.''
                else s1)
      in analyzeStatement s2 body)"
| "analyzeForStatement s l c initializer condition increment body =
     (let s1 = s\<lparr>table := beginScope (table s)\<rparr>;
          (ok, s2) = (case initializer of
                        None \<Rightarrow> (True, s1)
                      | Some i \<Rightarrow> analyzeDeclaration s1 i)
      in if \<not> ok then (False, s2\<lparr>table := endScope (table s2)\<rparr>)
         else
           (let s3 = (case condition of
                        None \<Rightarrow> s2
                      | Some cnd \<Rightarrow>
                          (let (condType, s') = analyzeExpression s2 condition
                           in if condType \<noteq> TOKEN_ERROR \<and> condType \<noteq> TOKEN_INT
                              then semanticError s' (nodeLine cnd) (nodeColumn cnd)
                                     ''Condition must be a boolean expression.''
                              else s'));
                s4 = (case increment of
                        None \<Rightarrow> s3
                      | Some u \<Rightarrow> snd (analyzeExpression s3 increment));
                (result, s5) = analyzeStatement s4 body
            in (result, s5\<lparr>table := endScope (table s5)\<rparr>)))"
| "analyzeReturnStatement s l c val =
     (if currentFunctionReturnType s = TOKEN_VOID \<and> val \<noteq> None
      then (False, semanticError s l c ''Cannot return a value from a void function.'')
      else if currentFunctionReturnType s \<noteq> TOKEN_VOID \<and> val = None
      then (False, semanticError s l c ''Missing return value in non-void function.'')
      else (case val of
              None \<Rightarrow> (True, s)
            | Some v \<Rightarrow>
                (let (valueType, s1) = analyzeExpression s val
                 in if valueType \<noteq> TOKEN_ERROR \<and> valueType \<noteq> currentFunctionReturnType s1
                    then (False, semanticError s1 (nodeLine v) (nodeColumn v)
                                   ''Return type mismatch.'')
                    else (True, s1))))"
| "analyzeExpressionStatement s l c expr =
     (True, snd (analyzeExpression s (Some expr)))"
| "analyzeExpression s node =
     (case node of
        None \<Rightarrow> (TOKEN_ERROR, s)
      | Some n \<Rightarrow>
          (case n of
             AstBinary l c a op b \<Rightarrow> analyzeBinary s l c a op b
           | AstUnary l c op a \<Rightarrow> analyzeUnary s l c op a
           | AstLiteral l c v \<Rightarrow> analyzeLiteral s l c v
           | AstVariable l c nm \<Rightarrow> analyzeVariable s l c nm
           | AstAssignment l c nm v \<Rightarrow> analyzeAssignment s l c nm v
           | AstCall l c nm as \<Rightarrow> analyzeCall s l c nm as
           | _ \<Rightarrow> (TOKEN_ERROR, semanticError s (nodeLine n) (nodeColumn n)
                                    ''Unknown expression type.'')))"
| "analyzeBinary s l c left op right =
     (let (leftType, s1) = analyzeExpression s (Some left);
          (rightType, s2) = analyzeExpression s1 right
      in if leftType = TOKEN_ERROR \<or> rightType = TOKEN_ERROR then (TOKEN_ERROR, s2)
         else if op = TOKEN_PLUS \<or> op = TOKEN_MINUS \<or> op = TOKEN_MULTIPLY \<or>
                 op = TOKEN_DIVIDE \<or> op = TOKEN_MODULO
         then (if (leftType \<noteq> TOKEN_INT \<and> leftType \<noteq> TOKEN_FLOAT) \<or>
                  (rightType \<noteq> TOKEN_INT \<and> rightType \<noteq> TOKEN_FLOAT)
               then (TOKEN_ERROR, semanticError s2 l c
                                    ''Arithmetic operators require numeric operands.'')
               else if leftType = TOKEN_FLOAT \<or> rightType = TOKEN_FLOAT
               then (TOKEN_FLOAT, s2)
               else (TOKEN_INT, s2))
         else if op = TOKEN_EQUALS \<or> op = TOKEN_NOT_EQUALS \<or> op = TOKEN_LESS \<or>
                 op = TOKEN_GREATER \<or> op = TOKEN_LESS_EQ \<or> op = TOKEN_GREATER_EQ
         then (if leftType \<noteq> rightType
               then (TOKEN_ERROR, semanticError s2 l c
                                    ''Comparison operators require compatible operands.'')
               else (TOKEN_INT, s2))
         else if op = TOKEN_AND \<or> op = TOKEN_OR
         then (if leftType \<noteq> TOKEN_INT \<or> rightType \<noteq> TOKEN_INT
               then (TOKEN_ERROR, semanticError s2 l c
                                    ''Logical operators require boolean operands.'')
               else (TOKEN_INT, s2))
         else (TOKEN_ERROR, semanticError s2 l c ''Unknown binary operator.''))"
| "analyzeUnary s l c op right =
     (let (operandType, s1) = analyzeExpression s (Some right)
      in if operandType = TOKEN_ERROR then (TOKEN_ERROR, s1)
         else if op = TOKEN_MINUS
         then (if operandType \<noteq> TOKEN_INT \<and> operandType \<noteq> TOKEN_FLOAT
               then (TOKEN_ERROR, semanticError s1 l c
                                    ''Unary negation requires a numeric operand.'')
               else (operandType, s1))
         else if op = TOKEN_NOT
         then (if operandType \<noteq> TOKEN_INT
               then (TOKEN_ERROR, semanticError s1 l c
                                    ''Logical NOT requires a boolean operand.'')
               else (TOKEN_INT, s1))
         else (TOKEN_ERROR, semanticError s1 l c ''Unknown unary operator.''))"
| "analyzeAssignment s l c nm val =
     (let (valueType, s1) = analyzeExpression s val
      in case resolveSymbol (table s1) (start nm) of
           None \<Rightarrow> (TOKEN_ERROR, semanticError s1 l c ''Undefined variable in assignment.'')
         | Some symbol \<Rightarrow>
             if symbolType symbol \<noteq> SYMBOL_VARIABLE
             then (TOKEN_ERROR, semanticError s1 l c ''Cannot assign to a function.'')
             else if valueType \<noteq> TOKEN_ERROR \<and> valueType \<noteq> dataType symbol
             then (TOKEN_ERROR, semanticError s1 l c ''Type mismatch in assignment.'')
             else (valueType, s1))"
| "analyzeCall s l c nm arguments =
     (case resolveSymbol (table s) (start nm) of
        None \<Rightarrow> (TOKEN_ERROR, semanticError s l c ''Undefined function.'')
      | Some symbol \<Rightarrow>
          if symbolType symbol \<noteq> SYMBOL_FUNCTION
          then (TOKEN_ERROR, semanticError s l c ''Cannot call a variable.'')
          else if int (length arguments) \<noteq> paramCount symbol
          then (TOKEN_ERROR, semanticError s l c ''Wrong number of arguments.'')
          else (dataType symbol, analyzeArguments s symbol arguments 0))"
| "analyzeArguments s symbol arguments i =
     (case arguments of
        [] \<Rightarrow> s
      | argument # rest \<Rightarrow>
          (let (argType, s1) = analyzeExpression s argument;
               s2 = (if argType \<noteq> TOKEN_ERROR \<and> argType \<noteq> paramTypes symbol ! i
                     then (case argument of
                             None \<Rightarrow> s1
                           | Some a \<Rightarrow> semanticError s1 (nodeLine a) (nodeColumn a)
                                        ''Argument type mismatch.'')
                     else s1)
           in analyzeArguments s2 symbol rest (i + 1)))"
  by pat_completeness auto
termination
  by (relation "measure
(case_sum (case_sum (case_sum (case_sum (\<lambda>(s, n). 2 * weight n + 1)
 (\<lambda>(s, l, c, nm, ty, i). 2 * weightOpt i + 1))
 (case_sum (\<lambda>(s, l, c, nm, ty, ps, body). 2 * weightList body + 2)
 (\<lambda>(s, n). 2 * weight n)))
 (case_sum (case_sum (\<lambda>(s, ss). 2 * weightList ss + 1)
 (\<lambda>(s, ss). 2 * weightList ss))
 (case_sum (\<lambda>(s, l, c, a, b, e). 2 * (weight a + weight b + weightOpt e) + 1)
 (\<lambda>(s, l, c, a, b). 2 * (weight a + weight b) + 1))))
 (case_sum (case_sum (case_sum (\<lambda>(s, l, c, i, a, u, b). 2 * (weightOpt i + weightOpt a + weightOpt u + weight b) + 1)
 (\<lambda>(s, l, c, v). 2 * weightOpt v + 1))
 (case_sum (\<lambda>(s, l, c, e). 2 * weight e + 1)
 (\<lambda>(s, e). 2 * weightOpt e)))
 (case_sum (case_sum (\<lambda>(s, l, c, a, op, b). 2 * (weight a + weightOpt b) + 1)
 (\<lambda>(s, l, c, op, a). 2 * weight a + 1))
 (case_sum (\<lambda>(s, l, c, nm, v). 2 * weightOpt v + 1)
 (case_sum (\<lambda>(s, l, c, nm, as). 2 * weightOptList as + 1)
 (\<lambda>(s, sym, as, i). 2 * weightOptList as))))))")
   (auto simp: weight_pos [THEN less_imp_neq, THEN not_sym])

text \<open>The first pass of \<^verbatim>\<open>analyzeProgram\<close>: every top-level function is registered.\<close>

fun registerFunctions :: "Analyzer \<Rightarrow> AstNode list \<Rightarrow> Analyzer" where
  "registerFunctions s [] = s"
| "registerFunctions s (node # rest) =
     registerFunctions
       (case node of
          AstFunctionDecl l c nm returnType params body \<Rightarrow>
            (let (symbol, t, printed) =
                   defineFunction (table s) (start nm) returnType (int (length params))
                     (map snd params) l c
             in s\<lparr>table := t, stderr_s := stderr_s s @ printed\<rparr>)
        | _ \<Rightarrow> s)
       rest"

text \<open>
  \<^verbatim>\<open>analyzeProgram\<close>, on the declarations of the \<^verbatim>\<open>AstProgram\<close>. The second loop returns
  \<^verbatim>\<open>false\<close> at the first declaration whose analysis returns \<^verbatim>\<open>false\<close>.
\<close>

definition analyzeProgram :: "Analyzer \<Rightarrow> AstNode list \<Rightarrow> bool \<times> Analyzer" where
  "analyzeProgram s declarations =
     (let s1 = registerFunctions s declarations;
          (ok, s2) = analyzeDeclarations s1 declarations
      in if \<not> ok then (False, s2) else (errorCount s2 = 0, s2))"

section \<open>Emitter, expressions (src/codegen/codegen.c)\<close>

text \<open>
  \<^verbatim>\<open>CodeGenContext\<close>: \<open>output_g\<close> is what has been written to the stream
  \<^verbatim>\<open>context->output\<close>; \<open>stderr_g\<close> is what the emitter has written to the standard error
  stream.
\<close>

record CodeGenContext =
  output_g :: string
  indentLevel :: int
  stderr_g :: "string list"

definition initCodeGen :: CodeGenContext where
  "initCodeGen = \<lparr>output_g = [], indentLevel = 0, stderr_g = []\<rparr>"

definition emit :: "CodeGenContext \<Rightarrow> string \<Rightarrow> CodeGenContext" where
  "emit g text = g\<lparr>output_g := output_g g @ text\<rparr>"

text \<open>
  \<^verbatim>\<open>%.*s\<close> with precision \<open>n\<close> on the C string \<open>s\<close>: at most \<open>n\<close> bytes; a negative
  precision counts as no precision.
\<close>

definition precision :: "int \<Rightarrow> string \<Rightarrow> string" where
  "precision n s = (if n < 0 then s else take (nat n) s)"

text \<open>
  \<^verbatim>\<open>strncmp(a, b, n) == 0\<close> on C strings: the first \<open>n\<close> bytes agree, or both strings
  end before and agree as a whole.
\<close>

definition strncmp_eq :: "string \<Rightarrow> string \<Rightarrow> nat \<Rightarrow> bool" where
  "strncmp_eq a b n = (take n a = take n b)"

text \<open>The two names the emitter maps, byte for byte as in the source file (UTF-8).\<close>

definition likho :: string where
  "likho = [CHR 0xE0, CHR 0xA4, CHR 0xB2, CHR 0xE0, CHR 0xA4, CHR 0xBF,
            CHR 0xE0, CHR 0xA4, CHR 0x96, CHR 0xE0, CHR 0xA5, CHR 0x8B]"

definition padho :: string where
  "padho = [CHR 0xE0, CHR 0xA4, CHR 0xAA, CHR 0xE0, CHR 0xA4, CHR 0xA2,
            CHR 0xE0, CHR 0xA4, CHR 0xBC, CHR 0xE0, CHR 0xA5, CHR 0x8B]"

definition generateLiteral :: "CodeGenContext \<Rightarrow> Token \<Rightarrow> CodeGenContext" where
  "generateLiteral g v =
     (if type v = TOKEN_NUMBER then emit g (precision (tlength v) (start v))
      else if type v = TOKEN_STRING
      then emit g ([CHR 0x22] @ precision (tlength v - 2) (drop 1 (start v)) @ [CHR 0x22])
      else g\<lparr>stderr_g := stderr_g g @ [''Unknown literal type in code generation.'']\<rparr>)"

definition generateVariable :: "CodeGenContext \<Rightarrow> Token \<Rightarrow> CodeGenContext" where
  "generateVariable g nm = emit g (precision (tlength nm) (start nm))"

text \<open>The operator switch of \<^verbatim>\<open>generateBinary\<close>.\<close>

definition binaryOperator :: "CodeGenContext \<Rightarrow> TokenType \<Rightarrow> CodeGenContext" where
  "binaryOperator g op =
     (if op = TOKEN_PLUS then emit g '' + ''
      else if op = TOKEN_MINUS then emit g '' - ''
      else if op = TOKEN_MULTIPLY then emit g '' * ''
      else if op = TOKEN_DIVIDE then emit g '' / ''
      else if op = TOKEN_MODULO then emit g '' % ''
      else if op = TOKEN_EQUALS then emit g '' == ''
      else if op = TOKEN_NOT_EQUALS then emit g '' != ''
      else if op = TOKEN_LESS then emit g '' < ''
      else if op = TOKEN_GREATER then emit g '' > ''
      else if op = TOKEN_LESS_EQ then emit g '' <= ''
      else if op = TOKEN_GREATER_EQ then emit g '' >= ''
      else if op = TOKEN_AND then emit g '' && ''
      else if op = TOKEN_OR then emit g '' || ''
      else g\<lparr>stderr_g := stderr_g g @ [''Unknown binary operator in code generation.'']\<rparr>)"

text \<open>
  The callee name of \<^verbatim>\<open>generateCall\<close>: the tests compare the byte length of the slice
  with 4 and 3 and the first 4 and 3 bytes with the two names.
\<close>

definition calleeName :: "CodeGenContext \<Rightarrow> Token \<Rightarrow> CodeGenContext" where
  "calleeName g nm =
     (if tlength nm = 4 \<and> strncmp_eq (start nm) likho 4 then emit g ''printf''
      else if tlength nm = 3 \<and> strncmp_eq (start nm) padho 3 then emit g ''scanf''
      else emit g (precision (tlength nm) (start nm)))"

function generateExpression :: "CodeGenContext \<Rightarrow> AstNode option \<Rightarrow> fault + CodeGenContext"
  and generateBinary ::
    "CodeGenContext \<Rightarrow> AstNode \<Rightarrow> TokenType \<Rightarrow> AstNode option \<Rightarrow> fault + CodeGenContext"
  and generateUnary :: "CodeGenContext \<Rightarrow> TokenType \<Rightarrow> AstNode \<Rightarrow> fault + CodeGenContext"
  and generateAssignment ::
    "CodeGenContext \<Rightarrow> Token \<Rightarrow> AstNode option \<Rightarrow> fault + CodeGenContext"
  and generateCall ::
    "CodeGenContext \<Rightarrow> Token \<Rightarrow> AstNode option list \<Rightarrow> fault + CodeGenContext"
  and generateArguments ::
    "CodeGenContext \<Rightarrow> AstNode option list \<Rightarrow> nat \<Rightarrow> fault + CodeGenContext"
where
  "generateExpression g node =
     (case node of
        None \<Rightarrow> Inl NullDereference
      | Some n \<Rightarrow>
          (case n of
             AstBinary l c a op b \<Rightarrow> generateBinary g a op b
           | AstUnary l c op a \<Rightarrow> generateUnary g op a
           | AstLiteral l c v \<Rightarrow> Inr (generateLiteral g v)
           | AstVariable l c nm \<Rightarrow> Inr (generateVariable g nm)
           | AstAssignment l c nm v \<Rightarrow> generateAssignment g nm v
           | AstCall l c nm as \<Rightarrow> generateCall g nm as
           | _ \<Rightarrow> Inr (g\<lparr>stderr_g := stderr_g g
                            @ [''Unknown expression type in code generation.'']\<rparr>)))"
| "generateBinary g left op right =
     (case generateExpression (emit g ''('') (Some left) of
        Inl f \<Rightarrow> Inl f
      | Inr g1 \<Rightarrow>
          (case generateExpression (binaryOperator g1 op) right of
             Inl f \<Rightarrow> Inl f
           | Inr g2 \<Rightarrow> Inr (emit g2 '')'')))"
| "generateUnary g op right =
     (let g1 = (if op = TOKEN_MINUS then emit g ''(-''
                else if op = TOKEN_NOT then emit g ''!''
                else g\<lparr>stderr_g := stderr_g g
                         @ [''Unknown unary operator in code generation.'']\<rparr>)
      in case generateExpression g1 (Some right) of
           Inl f \<Rightarrow> Inl f
         | Inr g2 \<Rightarrow> Inr (if op = TOKEN_MINUS then emit g2 '')'' else g2))"
| "generateAssignment g nm val =
     generateExpression (emit g (precision (tlength nm) (start nm) @ '' = '')) val"
| "generateCall g nm arguments =
     (case generateArguments (emit (calleeName g nm) ''('') arguments 0 of
        Inl f \<Rightarrow> Inl f
      | Inr g1 \<Rightarrow> Inr (emit g1 '')''))"
| "generateArguments g arguments i =
     (case arguments of
        [] \<Rightarrow> Inr g
      | argument # rest \<Rightarrow>
          (case generateExpression (if i > 0 then emit g '', '' else g) argument of
             Inl f \<Rightarrow> Inl f
           | Inr g1 \<Rightarrow> generateArguments g1 rest (i + 1)))"
  by pat_completeness auto
termination
  by (relation "measure
    (case_sum (case_sum (\<lambda>(g, e). 2 * weightOpt e)
                        (case_sum (\<lambda>(g, a, op, b). 2 * (weight a + weightOpt b) + 1)
                                  (\<lambda>(g, op, a). 2 * weight a + 1)))
              (case_sum (\<lambda>(g, nm, v). 2 * weightOpt v + 1)
                        (case_sum (\<lambda>(g, nm, as). 2 * weightOptList as + 1)
                                  (\<lambda>(g, as, i). 2 * weightOptList as))))")
     auto

section \<open>The claims\<close>

subsection \<open>Inputs and expected trees\<close>

text \<open>
  \<open>afterKeyword rest\<close> is the state in which \<^verbatim>\<open>declaration\<close> is called when the current
  token is the keyword of \<^verbatim>\<open>TOKEN_INT\<close> at the start of the buffer and \<open>rest\<close> is the text
  behind it.
\<close>

definition afterKeyword :: "string \<Rightarrow> Parser" where
  "afterKeyword rest =
     \<lparr>lexer = \<lparr>lstart = kw_int @ rest, lcurrent = rest, lline = 1, lcolumn = 25\<rparr>,
      current = \<lparr>type = TOKEN_INT, start = kw_int @ rest, tlength = 24, line = 1, column = 1\<rparr>,
      previous = blankToken, hadError = False, panicMode = False, stderr_p = []\<rparr>"

text \<open>
  The binary operators with their token kinds; \<open>chain op\<close> is the source \<open>a op b op c\<close>;
  \<open>operand src k\<close> is the variable node of the one-byte identifier at byte \<open>k\<close> of the
  one-line source \<open>src\<close>; \<open>leftNested\<close> is the tree \<open>Binary(Binary(a, op, b), op, c)\<close> of
  \<open>chain op\<close>, and \<open>rightNested\<close> the tree \<open>Assignment(a, Assignment(b, c))\<close> of the source
  \<open>a = b = c\<close>.
\<close>

definition binaryOperators :: "(string \<times> TokenType) list" where
  "binaryOperators =
     [(''+'', TOKEN_PLUS), (''-'', TOKEN_MINUS), (''*'', TOKEN_MULTIPLY),
      (''/'', TOKEN_DIVIDE), (''%'', TOKEN_MODULO),
      (''=='', TOKEN_EQUALS), (''!='', TOKEN_NOT_EQUALS),
      (''<'', TOKEN_LESS), (''>'', TOKEN_GREATER),
      (''<='', TOKEN_LESS_EQ), (''>='', TOKEN_GREATER_EQ),
      (''&&'', TOKEN_AND), (''||'', TOKEN_OR)]"

definition chain :: "string \<Rightarrow> string" where
  "chain opText = ''a '' @ opText @ '' b '' @ opText @ '' c''"

definition operand :: "string \<Rightarrow> nat \<Rightarrow> AstNode" where
  "operand src k =
     AstVariable 1 (int k + 1)
       \<lparr>type = TOKEN_IDENTIFIER, start = drop k src, tlength = 1,
        line = 1, column = int k + 1\<rparr>"

definition leftNested :: "string \<Rightarrow> TokenType \<Rightarrow> AstNode" where
  "leftNested opText opType =
     AstBinary 1 1
       (AstBinary 1 1
          (operand (chain opText) 0)
          opType
          (Some (operand (chain opText) (length opText + 3))))
       opType
       (Some (operand (chain opText) (2 * length opText + 6)))"

definition rightNested :: AstNode where
  "rightNested =
     AstAssignment 1 1
       \<lparr>type = TOKEN_IDENTIFIER, start = ''a = b = c'', tlength = 1, line = 1, column = 1\<rparr>
       (Some (AstAssignment 1 5
          \<lparr>type = TOKEN_IDENTIFIER, start = ''b = c'', tlength = 1, line = 1, column = 5\<rparr>
          (Some (operand ''a = b = c'' 8))))"

subsection \<open>The claims, one by one\<close>

text \<open>
  C1. The claim: for every keyword of the Devanagari keyword table, scanning a buffer that
  consists of exactly that keyword yields one token of the keyword's kind, followed by EOF.

  The scanner does not do this. Every keyword starts with the byte \<open>0xE0\<close>, which
  \<^verbatim>\<open>isIdentifierStart\<close> accepts, and goes on with a continuation byte (\<open>0xA4\<close> or
  \<open>0xA5\<close>), which \<^verbatim>\<open>isIdentifierPart\<close> rejects: the identifier ends after one byte and
  never equals a keyword. For each of the twelve keywords the first token scanned is an
  IDENTIFIER of length 1; for the keyword of \<^verbatim>\<open>TOKEN_IF\<close> the whole token dump is
  the group IDENTIFIER, ERROR, ERROR three times over, then EOF. The lemma
  \<open>scanToken_never_keyword\<close> above gives the general fact: on no buffer does the scanner
  return a token of a keyword kind.
\<close>

theorem C1_keyword_scanned_as_identifier:
  "map (\<lambda>(keyword, token). let t = fst (scanToken (initLexer keyword))
                            in (type t, tlength t)) hindiKeywords
     = replicate 12 (TOKEN_IDENTIFIER, 1) \<and>
   map type (tokenize (initLexer kw_if))
     = [TOKEN_IDENTIFIER, TOKEN_ERROR, TOKEN_ERROR,
        TOKEN_IDENTIFIER, TOKEN_ERROR, TOKEN_ERROR,
        TOKEN_IDENTIFIER, TOKEN_ERROR, TOKEN_ERROR, TOKEN_EOF]"
  by code_simp

text \<open>
  C2. The claim: when a program declares a variable and then refers to the same identifier
  while the scope of the declaration is open, the lookup finds the declared symbol:
  \<^verbatim>\<open>analyzeVariable\<close> returns the declared type and does not report
  \<^verbatim>\<open>Undefined variable.\<close>

  The analyzer does not do this. \<^verbatim>\<open>analyzeVarDecl\<close> and \<^verbatim>\<open>analyzeVariable\<close> pass
  \<^verbatim>\<open>name.start\<close> as the name, a pointer into the source buffer with no terminator
  after the identifier, and \<^verbatim>\<open>createSymbol\<close> and \<^verbatim>\<open>resolveSymbol\<close> treat it as a C
  string: the name stored and the name looked up are both the rest of the source from
  the identifier on. Below are the declaration and the use of \<open>x\<close> in a source that ends
  with \<open>x; x;\<close>, the declaration at line 1, column 26: the two tokens have the same
  slice, and the use is reported as undefined.
\<close>

theorem C2_declared_variable_reported_undefined:
  "slice \<lparr>type = TOKEN_IDENTIFIER, start = ''x; x;'', tlength = 1, line = 1, column = 26\<rparr>
     = slice \<lparr>type = TOKEN_IDENTIFIER, start = ''x;'', tlength = 1, line = 1, column = 29\<rparr> \<and>
   analyzeProgram initSemanticAnalyzer
     [AstVarDecl 1 26
        \<lparr>type = TOKEN_IDENTIFIER, start = ''x; x;'', tlength = 1, line = 1, column = 26\<rparr>
        TOKEN_INT None,
      AstExpressionStmt 1 29
        (AstVariable 1 29
           \<lparr>type = TOKEN_IDENTIFIER, start = ''x;'', tlength = 1, line = 1, column = 29\<rparr>)]
     = (False,
        \<lparr>errorCount = 1,
         table = \<lparr>first = [\<lparr>name = ''x; x;'', symbolType = SYMBOL_VARIABLE,
                               dataType = TOKEN_INT, paramCount = 0, paramTypes = [],
                               symbolDepth = 0\<rparr>],
                  scopeDepth = 0\<rparr>,
         currentFunctionReturnType = TOKEN_VOID,
         stderr_s = [(1, 29, ''Undefined variable.'')]\<rparr>)"
  by code_simp

text \<open>
  C3. The claim: \<^verbatim>\<open>analyzeProgram\<close> returns true exactly when the error count is zero
  after the analysis; whenever it returns false, a reported diagnostic has incremented
  \<^verbatim>\<open>errorCount\<close>, also when a variable is declared twice at the same scope depth.

  On a second declaration of a name at the same depth \<^verbatim>\<open>defineVariable\<close> prints its
  diagnostic itself and returns \<^verbatim>\<open>NULL\<close>; it has no access to the context, so the count
  stays as it is, \<^verbatim>\<open>analyzeVarDecl\<close> returns false and so does \<^verbatim>\<open>analyzeProgram\<close>. Below,
  two declarations whose name tokens point at the C string \<open>x\<close>: the result is false, one
  diagnostic is printed, and the error count is 0.
\<close>

theorem C3_redeclaration_fails_with_zero_errors:
  "analyzeProgram initSemanticAnalyzer
     [AstVarDecl 1 5
        \<lparr>type = TOKEN_IDENTIFIER, start = ''x'', tlength = 1, line = 1, column = 5\<rparr>
        TOKEN_INT None,
      AstVarDecl 2 5
        \<lparr>type = TOKEN_IDENTIFIER, start = ''x'', tlength = 1, line = 2, column = 5\<rparr>
        TOKEN_INT None]
     = (False,
        \<lparr>errorCount = 0,
         table = \<lparr>first = [\<lparr>name = ''x'', symbolType = SYMBOL_VARIABLE,
                               dataType = TOKEN_INT, paramCount = 0, paramTypes = [],
                               symbolDepth = 0\<rparr>],
                  scopeDepth = 0\<rparr>,
         currentFunctionReturnType = TOKEN_VOID,
         stderr_s = [(2, 5, ''Variable '' @ [CHR 0x27] @ ''x'' @ [CHR 0x27]
                              @ '' already defined in this scope.'')]\<rparr>)"
  by code_simp

text \<open>
  C4. The claim: for a call, the emitter writes \<^verbatim>\<open>printf\<close> for the callee exactly when
  the name slice is the Devanagari print name, \<^verbatim>\<open>scanf\<close> exactly when it is the
  Devanagari read name, and the slice itself otherwise.

  \<^verbatim>\<open>generateCall\<close> compares the byte length of the slice with 4 and with 3, the numbers
  of characters of the two names, which are 12 bytes long each. A callee whose slice is
  the print name is written as it is, not as \<^verbatim>\<open>printf\<close>; and a callee whose slice is the
  first character of the read name (3 bytes) is written as \<^verbatim>\<open>scanf\<close>.
\<close>

theorem C4_print_name_not_mapped:
  "generateExpression initCodeGen
     (Some (AstCall 1 1
        \<lparr>type = TOKEN_IDENTIFIER, start = likho @ ''()'', tlength = 12, line = 1, column = 1\<rparr>
        []))
     = Inr \<lparr>output_g = likho @ ''()'', indentLevel = 0, stderr_g = []\<rparr> \<and>
   generateExpression initCodeGen
     (Some (AstCall 1 1
        \<lparr>type = TOKEN_IDENTIFIER, start = take 3 padho @ ''()'', tlength = 3,
         line = 1, column = 1\<rparr>
        []))
     = Inr \<lparr>output_g = ''scanf()'', indentLevel = 0, stderr_g = []\<rparr>"
  by code_simp

text \<open>
  C5. The claim: for a NUMBER literal, type inference returns FLOAT exactly when the
  token's own slice contains a dot, and INT otherwise.

  \<^verbatim>\<open>analyzeLiteral\<close> searches with \<^verbatim>\<open>strchr\<close> from the start of the token to the end of the
  source buffer. The first token of the source \<open>1; 2.5;\<close> is the NUMBER with slice \<open>1\<close>;
  its type is inferred as FLOAT because of the dot further on.
\<close>

theorem C5_integer_literal_typed_float:
  "type (fst (scanToken (initLexer ''1; 2.5;''))) = TOKEN_NUMBER \<and>
   slice (fst (scanToken (initLexer ''1; 2.5;''))) = ''1'' \<and>
   analyzeLiteral initSemanticAnalyzer 1 1 (fst (scanToken (initLexer ''1; 2.5;'')))
     = (TOKEN_FLOAT, initSemanticAnalyzer)"
  by code_simp

text \<open>
  C6. The claim: when the parser has consumed a type keyword and the current token is an
  identifier, it parses a function declaration exactly when the token after the
  identifier is an opening parenthesis, and a variable declaration otherwise, whatever
  the white space between the identifier and that token.

  \<^verbatim>\<open>declaration\<close> does not look at the next token: it looks at the two bytes behind the
  identifier. With two blanks between the identifier and the
  parenthesis a variable declaration is parsed, the parenthesis is the current token
  afterwards and a semicolon is reported missing. With \<open>x=(1);\<close> the second byte behind the
  identifier is a parenthesis and the function path is taken: it reports a missing
  parenthesis after the function name and ends reading through \<^verbatim>\<open>NULL\<close>.
\<close>

theorem C6_lookahead_reads_two_bytes:
  "declaration_parser (30 + k) (afterKeyword '' f  () { }'')
     = Return
         (Some (AstVarDecl 1 26
            \<lparr>type = TOKEN_IDENTIFIER, start = ''f  () { }'', tlength = 1,
             line = 1, column = 26\<rparr>
            TOKEN_INT None))
         \<lparr>lexer = \<lparr>lstart = ''() { }'', lcurrent = '') { }'', lline = 1, lcolumn = 30\<rparr>,
          current = \<lparr>type = TOKEN_LPAREN, start = ''() { }'', tlength = 1,
                     line = 1, column = 29\<rparr>,
          previous = \<lparr>type = TOKEN_IDENTIFIER, start = ''f  () { }'', tlength = 1,
                      line = 1, column = 26\<rparr>,
          hadError = True, panicMode = True,
          stderr_p = [(1, 29, ''Expect ';' after variable declaration.'')]\<rparr> \<and>
   declaration_parser (30 + k) (afterKeyword '' x=(1);'')
     = Abort NullDereference
         \<lparr>lexer = \<lparr>lstart = '';'', lcurrent = [], lline = 1, lcolumn = 32\<rparr>,
          current = \<lparr>type = TOKEN_SEMICOLON, start = '';'', tlength = 1,
                     line = 1, column = 31\<rparr>,
          previous = \<lparr>type = TOKEN_RPAREN, start = '');'', tlength = 1,
                      line = 1, column = 30\<rparr>,
          hadError = True, panicMode = True,
          stderr_p = [(1, 27, ''Expect '(' after function name.'')]\<rparr>"
proof -
  have a: "declaration_parser 30 (afterKeyword '' f  () { }'')
     = Return
         (Some (AstVarDecl 1 26
            \<lparr>type = TOKEN_IDENTIFIER, start = ''f  () { }'', tlength = 1,
             line = 1, column = 26\<rparr>
            TOKEN_INT None))
         \<lparr>lexer = \<lparr>lstart = ''() { }'', lcurrent = '') { }'', lline = 1, lcolumn = 30\<rparr>,
          current = \<lparr>type = TOKEN_LPAREN, start = ''() { }'', tlength = 1,
                     line = 1, column = 29\<rparr>,
          previous = \<lparr>type = TOKEN_IDENTIFIER, start = ''f  () { }'', tlength = 1,
                      line = 1, column = 26\<rparr>,
          hadError = True, panicMode = True,
          stderr_p = [(1, 29, ''Expect ';' after variable declaration.'')]\<rparr>"
    by code_simp
  have b: "declaration_parser 30 (afterKeyword '' x=(1);'')
     = Abort NullDereference
         \<lparr>lexer = \<lparr>lstart = '';'', lcurrent = [], lline = 1, lcolumn = 32\<rparr>,
          current = \<lparr>type = TOKEN_SEMICOLON, start = '';'', tlength = 1,
                     line = 1, column = 31\<rparr>,
          previous = \<lparr>type = TOKEN_RPAREN, start = '');'', tlength = 1,
                      line = 1, column = 30\<rparr>,
          hadError = True, panicMode = True,
          stderr_p = [(1, 27, ''Expect '(' after function name.'')]\<rparr>"
    by code_simp
  have "declaration_parser (30 + k) p = declaration_parser 30 p"
    if "fueled (declaration_parser 30 p)" for p
    using fuel_add [of "\<lambda>n. declaration_parser n p" 30 k] declaration_parser_fuel that
    by simp
  with a b show ?thesis by simp
qed

text \<open>
  C7. For each of the thirteen binary operators, the input \<open>a op b op c\<close> parses to the
  left-nested tree \<open>Binary(Binary(a, op, b), op, c)\<close>, and the input \<open>a = b = c\<close> parses
  to the right-nested tree \<open>Assignment(a, Assignment(b, c))\<close>.

  The inputs are given to \<^verbatim>\<open>expression\<close> on a parser initialised on the source text,
  and the trees are stated with their tokens and positions. Twenty units of fuel are
  enough, and more fuel gives the same result.
\<close>

theorem C7_binary_left_assignment_right:
  "map (\<lambda>(opText, opType).
          returned (expression (20 + k) (initParser blankParser (initLexer (chain opText)))))
       binaryOperators
     = map (\<lambda>(opText, opType). Inr (Some (leftNested opText opType))) binaryOperators \<and>
   returned (expression (20 + k) (initParser blankParser (initLexer ''a = b = c'')))
     = Inr (Some rightNested)"
proof -
  have plus: "returned (expression 20 (initParser blankParser (initLexer (chain ''+''))))
      = Inr (Some (leftNested ''+'' TOKEN_PLUS))"
    by code_simp
  have minus: "returned (expression 20 (initParser blankParser (initLexer (chain ''-''))))
      = Inr (Some (leftNested ''-'' TOKEN_MINUS))"
    by code_simp
  have multiply: "returned (expression 20 (initParser blankParser (initLexer (chain ''*''))))
      = Inr (Some (leftNested ''*'' TOKEN_MULTIPLY))"
    by code_simp
  have divide: "returned (expression 20 (initParser blankParser (initLexer (chain ''/''))))
      = Inr (Some (leftNested ''/'' TOKEN_DIVIDE))"
    by code_simp
  have modulo: "returned (expression 20 (initParser blankParser (initLexer (chain ''%''))))
      = Inr (Some (leftNested ''%'' TOKEN_MODULO))"
    by code_simp
  have equals: "returned (expression 20 (initParser blankParser (initLexer (chain ''==''))))
      = Inr (Some (leftNested ''=='' TOKEN_EQUALS))"
    by code_simp
  have not_equals: "returned (expression 20 (initParser blankParser (initLexer (chain ''!=''))))
      = Inr (Some (leftNested ''!='' TOKEN_NOT_EQUALS))"
    by code_simp
  have less: "returned (expression 20 (initParser blankParser (initLexer (chain ''<''))))
      = Inr (Some (leftNested ''<'' TOKEN_LESS))"
    by code_simp
  have greater: "returned (expression 20 (initParser blankParser (initLexer (chain ''>''))))
      = Inr (Some (leftNested ''>'' TOKEN_GREATER))"
    by code_simp
  have less_eq: "returned (expression 20 (initParser blankParser (initLexer (chain ''<=''))))
      = Inr (Some (leftNested ''<='' TOKEN_LESS_EQ))"
    by code_simp
  have greater_eq: "returned (expression 20 (initParser blankParser (initLexer (chain ''>=''))))
      = Inr (Some (leftNested ''>='' TOKEN_GREATER_EQ))"
    by code_simp
  have conj: "returned (expression 20 (initParser blankParser (initLexer (chain ''&&''))))
      = Inr (Some (leftNested ''&&'' TOKEN_AND))"
    by code_simp
  have disj: "returned (expression 20 (initParser blankParser (initLexer (chain ''||''))))
      = Inr (Some (leftNested ''||'' TOKEN_OR))"
    by code_simp
  have assign: "returned (expression 20 (initParser blankParser (initLexer ''a = b = c'')))
      = Inr (Some rightNested)"
    by code_simp
  show ?thesis
    by (simp add: binaryOperators_def
        returned_fuel [OF plus] returned_fuel [OF minus] returned_fuel [OF multiply]
        returned_fuel [OF divide] returned_fuel [OF modulo] returned_fuel [OF equals]
        returned_fuel [OF not_equals] returned_fuel [OF less] returned_fuel [OF greater]
        returned_fuel [OF less_eq] returned_fuel [OF greater_eq] returned_fuel [OF conj]
        returned_fuel [OF disj] returned_fuel [OF assign])
qed

text \<open>
  C8. A return statement analysed while the return type of the current function is void:
  if it has a value, the analysis prints exactly the diagnostic
  \<^verbatim>\<open>Cannot return a value from a void function.\<close>, at the position of the statement, and
  adds one to the error count. A return statement analysed while the return type of the
  current function is not void: if it has no value, the analysis prints exactly
  \<^verbatim>\<open>Missing return value in non-void function.\<close> and adds one to the error count. In both
  cases nothing else changes and the result is false.
\<close>

theorem C8_return_diagnostics:
  "(currentFunctionReturnType s = TOKEN_VOID \<and> v \<noteq> None \<longrightarrow>
      analyzeReturnStatement s l c v =
        (False,
         s\<lparr>stderr_s := stderr_s s @ [(l, c, ''Cannot return a value from a void function.'')],
           errorCount := errorCount s + 1\<rparr>)) \<and>
   (currentFunctionReturnType s \<noteq> TOKEN_VOID \<and> v = None \<longrightarrow>
      analyzeReturnStatement s l c v =
        (False,
         s\<lparr>stderr_s := stderr_s s @ [(l, c, ''Missing return value in non-void function.'')],
           errorCount := errorCount s + 1\<rparr>))"
  by (simp add: semanticError_def)

theorem C8_return_diagnostics_witness:
  "analyzeReturnStatement initSemanticAnalyzer 3 5
     (Some (AstLiteral 3 12
        \<lparr>type = TOKEN_NUMBER, start = ''1; }'', tlength = 1, line = 3, column = 12\<rparr>))
     = (False,
        \<lparr>errorCount = 1, table = initSymbolTable, currentFunctionReturnType = TOKEN_VOID,
         stderr_s = [(3, 5, ''Cannot return a value from a void function.'')]\<rparr>) \<and>
   analyzeReturnStatement (initSemanticAnalyzer\<lparr>currentFunctionReturnType := TOKEN_INT\<rparr>) 3 5 None
     = (False,
        \<lparr>errorCount = 1, table = initSymbolTable, currentFunctionReturnType = TOKEN_INT,
         stderr_s = [(3, 5, ''Missing return value in non-void function.'')]\<rparr>)"
  using C8_return_diagnostics [of initSemanticAnalyzer
      "Some (AstLiteral 3 12
         \<lparr>type = TOKEN_NUMBER, start = ''1; }'', tlength = 1, line = 3, column = 12\<rparr>)" 3 5]
    C8_return_diagnostics [of "initSemanticAnalyzer\<lparr>currentFunctionReturnType := TOKEN_INT\<rparr>"
      None 3 5]
  by (simp add: initSemanticAnalyzer_def)

text \<open>
  C9. The claim: \<^verbatim>\<open>parse\<close> never reads through a \<^verbatim>\<open>NULL\<close> node; the \<^verbatim>\<open>NULL\<close> that
  \<^verbatim>\<open>primary\<close> returns after \<^verbatim>\<open>Expect expression.\<close> never reaches a constructor that reads
  its line and column.

  On the source that consists of one semicolon \<^verbatim>\<open>primary\<close> reports
  \<^verbatim>\<open>Expect expression.\<close> and returns \<^verbatim>\<open>NULL\<close>, \<^verbatim>\<open>expressionStatement\<close> consumes the
  semicolon and passes the \<^verbatim>\<open>NULL\<close> to \<^verbatim>\<open>createExpressionStmt\<close>, which reads
  \<^verbatim>\<open>expression->line\<close>.
\<close>

theorem C9_semicolon_reads_through_null:
  "parse (20 + k) (initParser blankParser (initLexer '';''))
     = Abort NullDereference
         \<lparr>lexer = \<lparr>lstart = [], lcurrent = [], lline = 1, lcolumn = 2\<rparr>,
          current = \<lparr>type = TOKEN_EOF, start = [], tlength = 0, line = 1, column = 2\<rparr>,
          previous = \<lparr>type = TOKEN_SEMICOLON, start = '';'', tlength = 1,
                      line = 1, column = 1\<rparr>,
          hadError = True, panicMode = True,
          stderr_p = [(1, 1, ''Expect expression.'')]\<rparr>"
proof -
  have a: "parse 20 (initParser blankParser (initLexer '';''))
     = Abort NullDereference
         \<lparr>lexer = \<lparr>lstart = [], lcurrent = [], lline = 1, lcolumn = 2\<rparr>,
          current = \<lparr>type = TOKEN_EOF, start = [], tlength = 0, line = 1, column = 2\<rparr>,
          previous = \<lparr>type = TOKEN_SEMICOLON, start = '';'', tlength = 1,
                      line = 1, column = 1\<rparr>,
          hadError = True, panicMode = True,
          stderr_p = [(1, 1, ''Expect expression.'')]\<rparr>"
    by code_simp
  have "parse (20 + k) p = parse 20 p" if "fueled (parse 20 p)" for p
    using fuel_add [of "\<lambda>n. parse n p" 20 k] parse_extends that by simp
  with a show ?thesis by simp
qed

text \<open>
  C10. Once the parser has reported its first error, panic mode stays on for the rest of
  the parse: nothing in the parser switches it off (\<^verbatim>\<open>synchronize\<close> is not called by any
  parsing function). So every later call of \<^verbatim>\<open>parserError\<close> is silent, at most one
  diagnostic is printed in one run, and the error flag stays set.

  In terms of \<open>keeps\<close>: every operation that changes the parser state
  (\<^verbatim>\<open>parserError\<close>, \<^verbatim>\<open>advance\<close>, \<^verbatim>\<open>match\<close>, \<^verbatim>\<open>consume\<close>) and every run of a parsing function,
  with any fuel and whether it returns or stops, leads from a state to one that keeps
  panic mode and the error flag and prints at most the one diagnostic that switches panic
  mode on. A run of \<^verbatim>\<open>initParser\<close> and \<^verbatim>\<open>parse\<close> adds at most one line to the standard
  error stream.
\<close>

theorem C10_panic_mode_stays_on:
  "(panicMode p \<longrightarrow> parserError p message = p) \<and>
   keeps p (parserError p message) \<and>
   keeps p (advance p) \<and>
   keeps p (snd (match p ty)) \<and>
   keeps p (snd (consume p ty message)) \<and>
   keeps p (final (declaration_parser n p)) \<and>
   keeps p (final (statement n p)) \<and>
   keeps p (final (expression n p)) \<and>
   keeps p (final (parse n p)) \<and>
   (\<exists>ds. stderr_p (final (parse n (initParser p0 l))) = stderr_p p0 @ ds \<and> length ds \<le> 1)"
proof -
  let ?s = "p0\<lparr>lexer := l, hadError := False, panicMode := False\<rparr>"
  have fs: "keeps q (final (declaration_parser n q))" "keeps q (final (statement n q))"
    "keeps q (final (expression n q))" for q
    using parserKeeps_all [of n] by (simp_all add: parserKeeps_def)
  have "keeps ?s (initParser p0 l)"
    unfolding initParser_def by (rule keeps_advance)
  then have "keeps ?s (final (parse n (initParser p0 l)))"
    using parse_keeps keeps_trans by blast
  then have run: "\<exists>ds. stderr_p (final (parse n (initParser p0 l))) = stderr_p p0 @ ds \<and>
      length ds \<le> 1"
    by (auto simp: keeps_def)
  have silent: "panicMode p \<longrightarrow> parserError p message = p"
    by (simp add: parserError_def)
  show ?thesis
    using silent run fs [of p] keeps_parserError [of p message] keeps_advance [of p]
      keeps_match [of p ty] keeps_consume [of p ty message] parse_keeps [of p n]
    by blast
qed

theorem C10_panic_mode_stays_on_witness:
  "panicMode (blankParser\<lparr>panicMode := True, hadError := True\<rparr>) \<and>
   parserError (blankParser\<lparr>panicMode := True, hadError := True\<rparr>) ''Expect expression.''
     = blankParser\<lparr>panicMode := True, hadError := True\<rparr> \<and>
   panicMode (advance (blankParser\<lparr>panicMode := True, hadError := True\<rparr>)) \<and>
   stderr_p (advance (blankParser\<lparr>panicMode := True, hadError := True\<rparr>)) = [] \<and>
   panicMode (final (parse 30 (blankParser\<lparr>panicMode := True, hadError := True\<rparr>))) \<and>
   hadError (final (parse 30 (blankParser\<lparr>panicMode := True, hadError := True\<rparr>))) \<and>
   stderr_p (final (parse 30 (blankParser\<lparr>panicMode := True, hadError := True\<rparr>))) = [] \<and>
   length (stderr_p (final (parse 30 (initParser blankParser (initLexer ''1 2 3''))))) \<le> 1"
proof -
  have pm: "panicMode (blankParser\<lparr>panicMode := True, hadError := True\<rparr>)"
    "hadError (blankParser\<lparr>panicMode := True, hadError := True\<rparr>)"
    "stderr_p (blankParser\<lparr>panicMode := True, hadError := True\<rparr>) = []"
    "stderr_p blankParser = []"
    by (simp_all add: blankParser_def)
  show ?thesis
    using C10_panic_mode_stays_on [of "blankParser\<lparr>panicMode := True, hadError := True\<rparr>"
        "''Expect expression.''" TOKEN_SEMICOLON 30 blankParser "initLexer ''1 2 3''"] pm
    by (auto simp: keeps_def)
qed

end
